theory Spec2Isabelle
  imports Complex_Main "HOL-Library.Product_Lexorder"
begin

section \<open>JavaScript strings\<close>

text \<open>
  A JavaScript string is a sequence of UTF-16 code units; a code unit is modelled as a
  natural number. String literals of the source are written \<open>js ''...''\<close>; the two
  non-ASCII characters of the source, the bullet U+2022 and the letter U+00E9, are written
  as numbers. \<open>None\<close> of type \<open>jstring option\<close> stands for \<open>undefined\<close> or \<open>null\<close>.
\<close>

type_synonym jstring = "nat list"

definition js :: "string \<Rightarrow> jstring" where
  "js s = map of_char s"

definition bullet :: nat where
  "bullet = 8226"

definition isDigit :: "nat \<Rightarrow> bool" where
  "isDigit c = (48 \<le> c \<and> c \<le> 57)"

definition isUpperAscii :: "nat \<Rightarrow> bool" where
  "isUpperAscii c = (65 \<le> c \<and> c \<le> 90)"

definition isLowerAscii :: "nat \<Rightarrow> bool" where
  "isLowerAscii c = (97 \<le> c \<and> c \<le> 122)"

definition isAsciiLetter :: "nat \<Rightarrow> bool" where
  "isAsciiLetter c = (isUpperAscii c \<or> isLowerAscii c)"

text \<open>The class \<open>\w\<close> of a regular expression: \<open>[A-Za-z0-9_]\<close>.\<close>

definition isWordChar :: "nat \<Rightarrow> bool" where
  "isWordChar c = (isAsciiLetter c \<or> isDigit c \<or> c = 95)"

text \<open>
  The class \<open>\s\<close>, which is also what \<open>trim\<close> removes: the white space and line
  terminator code points of ECMAScript.
\<close>

definition isSpace :: "nat \<Rightarrow> bool" where
  "isSpace c = (c = 32 \<or> (9 \<le> c \<and> c \<le> 13) \<or> c = 160 \<or> c = 5760
     \<or> (8192 \<le> c \<and> c \<le> 8202) \<or> c = 8232 \<or> c = 8233 \<or> c = 8239 \<or> c = 8287
     \<or> c = 12288 \<or> c = 65279)"

text \<open>The dot of a regular expression matches everything but a line terminator.\<close>

definition isLineTerminator :: "nat \<Rightarrow> bool" where
  "isLineTerminator c = (c = 10 \<or> c = 13 \<or> c = 8232 \<or> c = 8233)"

text \<open>
  \<open>toLowerCase\<close> on one code unit. The Basic Latin and Latin-1 letters are mapped as
  JavaScript maps them; a code unit above U+00FF is left unchanged (the Unicode case
  tables beyond Latin-1 are not part of the model).
\<close>

definition lowerUnit :: "nat \<Rightarrow> nat" where
  "lowerUnit c = (if isUpperAscii c then c + 32
     else if 192 \<le> c \<and> c \<le> 222 \<and> c \<noteq> 215 then c + 32 else c)"

definition toLowerCase :: "jstring \<Rightarrow> jstring" where
  "toLowerCase s = map lowerUnit s"

text \<open>
  The canonical form under which a regular expression with the flag \<open>i\<close> compares two code
  units (their upper case), exact for the pattern characters of the source: the ASCII
  characters and U+00E9.
\<close>

definition canonUnit :: "nat \<Rightarrow> nat" where
  "canonUnit c = (if isLowerAscii c then c - 32
     else if 224 \<le> c \<and> c \<le> 254 \<and> c \<noteq> 247 then c - 32 else c)"

definition unitEq :: "bool \<Rightarrow> nat \<Rightarrow> nat \<Rightarrow> bool" where
  "unitEq ci p c = (if ci then canonUnit p = canonUnit c else p = c)"

subsection \<open>The string methods the source uses\<close>

fun startsWith :: "jstring \<Rightarrow> jstring \<Rightarrow> bool" where
  "startsWith s [] = True"
| "startsWith [] (p # ps) = False"
| "startsWith (c # cs) (p # ps) = (if c = p then startsWith cs ps else False)"

definition endsWith :: "jstring \<Rightarrow> jstring \<Rightarrow> bool" where
  "endsWith s p = startsWith (rev s) (rev p)"

fun str_includes :: "jstring \<Rightarrow> jstring \<Rightarrow> bool" where
  "str_includes [] p = (p = [])"
| "str_includes (c # cs) p = (if startsWith (c # cs) p then True else str_includes cs p)"

text \<open>\<open>indexOf\<close> returns \<open>None\<close> where JavaScript returns \<open>-1\<close>.\<close>

fun indexOfAt :: "nat \<Rightarrow> jstring \<Rightarrow> jstring \<Rightarrow> nat option" where
  "indexOfAt i [] p = (if p = [] then Some i else None)"
| "indexOfAt i (c # cs) p =
     (if startsWith (c # cs) p then Some i else indexOfAt (i + 1) cs p)"

definition indexOf :: "jstring \<Rightarrow> jstring \<Rightarrow> nat option" where
  "indexOf s p = indexOfAt 0 s p"

text \<open>\<open>s.indexOf(p, from)\<close>.\<close>

definition indexOfFrom :: "jstring \<Rightarrow> jstring \<Rightarrow> nat \<Rightarrow> nat option" where
  "indexOfFrom s p from = indexOfAt (min from (length s)) (drop from s) p"

fun lastIndexOfAt :: "nat \<Rightarrow> nat option \<Rightarrow> jstring \<Rightarrow> nat \<Rightarrow> nat option" where
  "lastIndexOfAt i found [] c = found"
| "lastIndexOfAt i found (d # ds) c =
     lastIndexOfAt (i + 1) (if d = c then Some i else found) ds c"

text \<open>\<open>s.lastIndexOf(c)\<close> for a pattern of one code unit.\<close>

definition lastIndexOf :: "jstring \<Rightarrow> nat \<Rightarrow> nat option" where
  "lastIndexOf s c = lastIndexOfAt 0 None s c"

text \<open>\<open>s.substring(a, b)\<close> (the arguments are swapped when \<open>a > b\<close>) and \<open>s.substring(a)\<close>.\<close>

definition substring :: "jstring \<Rightarrow> nat \<Rightarrow> nat \<Rightarrow> jstring" where
  "substring s a b = take (max a b - min a b) (drop (min a b) s)"

definition substringFrom :: "jstring \<Rightarrow> nat \<Rightarrow> jstring" where
  "substringFrom s a = drop a s"

definition trimStart :: "jstring \<Rightarrow> jstring" where
  "trimStart s = dropWhile isSpace s"

definition trim :: "jstring \<Rightarrow> jstring" where
  "trim s = rev (dropWhile isSpace (rev (dropWhile isSpace s)))"

text \<open>\<open>s.replace(/\s+/g, '')\<close>: every white space character is removed.\<close>

definition removeSpaces :: "jstring \<Rightarrow> jstring" where
  "removeSpaces s = filter (\<lambda>c. \<not> isSpace c) s"

text \<open>
  \<open>s.split(sep)\<close> for a separator of one code unit: the pieces between the separators,
  empty pieces included; the empty string gives one empty piece.
\<close>

fun splitUnit :: "nat \<Rightarrow> jstring \<Rightarrow> jstring list" where
  "splitUnit sep [] = [[]]"
| "splitUnit sep (c # cs) =
     (if c = sep then [] # splitUnit sep cs
      else (case splitUnit sep cs of
              [] \<Rightarrow> [[c]]
            | w # ws \<Rightarrow> (c # w) # ws))"

text \<open>
  \<open>s.split(/\s+/)\<close>: the pieces between the maximal runs of white space; a run at the
  start or at the end of the string leaves an empty piece there.
\<close>

fun splitSpacesIn :: "bool \<Rightarrow> jstring \<Rightarrow> jstring list" where
  "splitSpacesIn inRun [] = [[]]"
| "splitSpacesIn inRun (c # cs) =
     (if isSpace c then (if inRun then splitSpacesIn True cs else [] # splitSpacesIn True cs)
      else (case splitSpacesIn False cs of
              [] \<Rightarrow> [[c]]
            | w # ws \<Rightarrow> (c # w) # ws))"

definition splitSpaces :: "jstring \<Rightarrow> jstring list" where
  "splitSpaces s = splitSpacesIn False s"

text \<open>\<open>xs.some(P)\<close> and \<open>xs.every(P)\<close>, which stop at the first decisive element.\<close>

fun some :: "('a \<Rightarrow> bool) \<Rightarrow> 'a list \<Rightarrow> bool" where
  "some P [] = False"
| "some P (x # xs) = (if P x then True else some P xs)"

fun every :: "('a \<Rightarrow> bool) \<Rightarrow> 'a list \<Rightarrow> bool" where
  "every P [] = True"
| "every P (x # xs) = (if P x then every P xs else False)"

text \<open>\<open>xs.indexOf(x)\<close> on an array: the first position of \<open>x\<close>.\<close>

fun arrayIndexOfAt :: "nat \<Rightarrow> 'a list \<Rightarrow> 'a \<Rightarrow> nat option" where
  "arrayIndexOfAt i [] x = None"
| "arrayIndexOfAt i (y # ys) x = (if y = x then Some i else arrayIndexOfAt (i + 1) ys x)"

definition arrayIndexOf :: "'a list \<Rightarrow> 'a \<Rightarrow> nat option" where
  "arrayIndexOf xs x = arrayIndexOfAt 0 xs x"

text \<open>Truthiness of a string-valued field, and \<open>a || b\<close> on such fields.\<close>

definition truthy :: "jstring option \<Rightarrow> bool" where
  "truthy v = (case v of None \<Rightarrow> False | Some s \<Rightarrow> s \<noteq> [])"

definition orElse :: "jstring option \<Rightarrow> jstring \<Rightarrow> jstring" where
  "orElse v d = (case v of None \<Rightarrow> d | Some s \<Rightarrow> if s = [] then d else s)"

section \<open>The text normalizer\<close>

text \<open>
  \<^verbatim>\<open>function cleanSpecialCharacters(text) {
    if (!text) return '';
    return text.replace(/[^\w\s.,&'-]/g, '');
}\<close>
  The characters kept are those of the negated class: \<open>\w\<close>, \<open>\s\<close> and the five
  characters \<open>. , & ' -\<close> (code units 46, 44, 38, 39, 45).
\<close>

definition keptUnit :: "nat \<Rightarrow> bool" where
  "keptUnit c = (isWordChar c \<or> isSpace c \<or> c = 46 \<or> c = 44 \<or> c = 38 \<or> c = 39 \<or> c = 45)"

definition cleanSpecialCharacters :: "jstring option \<Rightarrow> jstring" where
  "cleanSpecialCharacters text =
     (case text of
        None \<Rightarrow> []
      | Some t \<Rightarrow> if t = [] then [] else filter keptUnit t)"

section \<open>Regular expressions\<close>

text \<open>
  The regular expressions of the source are written as terms of the type \<open>rx\<close> and run by
  a backtracking matcher that follows the ECMAScript rules for the constructs the source
  uses: ordered alternatives, greedy quantifiers (the source quantifies single characters
  and classes only), capture groups (never nested in the source), and the assertions
  \<open>^\<close>, \<open>$\<close> (no flag \<open>m\<close> is used) and \<open>\b\<close>. Under the flag \<open>i\<close> a pattern character is
  compared by \<open>unitEq\<close>; a class is given as the predicate it denotes under the flags of
  its expression.
\<close>

datatype rx =
    Chr nat
  | Lit jstring
  | Cls "nat \<Rightarrow> bool"
  | Star "nat \<Rightarrow> bool"
  | Plus "nat \<Rightarrow> bool"
  | Opt "nat \<Rightarrow> bool"
  | Bol
  | Eol
  | WordB
  | Eps
  | Seq rx rx
  | Alt rx rx
  | Grp rx

text \<open>
  A position in the subject: the code unit before it (\<open>None\<close> at index 0) and the rest of
  the subject. A capture is kept as the rests at its two ends.
\<close>

type_synonym rxpos = "nat option \<times> jstring"
type_synonym rxcaps = "(jstring \<times> jstring) list"

definition dot :: "nat \<Rightarrow> bool" where
  "dot c = (\<not> isLineTerminator c)"

definition atWordBoundary :: "rxpos \<Rightarrow> bool" where
  "atWordBoundary st =
     ((case fst st of None \<Rightarrow> False | Some c \<Rightarrow> isWordChar c)
      \<noteq> (case snd st of [] \<Rightarrow> False | c # cs \<Rightarrow> isWordChar c))"

text \<open>
  A literal text of the pattern against the subject: the rest of the subject and the last
  code unit passed, if the subject starts with the text.
\<close>

fun litRun :: "bool \<Rightarrow> jstring \<Rightarrow> nat option \<Rightarrow> jstring \<Rightarrow> rxpos option" where
  "litRun ci [] prev s = Some (prev, s)"
| "litRun ci (p # ps) prev [] = None"
| "litRun ci (p # ps) prev (c # cs) = (if unitEq ci p c then litRun ci ps (Some c) cs else None)"

fun starRun :: "(nat \<Rightarrow> bool) \<Rightarrow> nat option \<Rightarrow> jstring \<Rightarrow> (rxpos \<Rightarrow> 'a option) \<Rightarrow> 'a option" where
  "starRun P prev [] k = k (prev, [])"
| "starRun P prev (c # cs) k =
     (if P c then (case starRun P (Some c) cs k of
                     Some r \<Rightarrow> Some r
                   | None \<Rightarrow> k (prev, c # cs))
      else k (prev, c # cs))"

primrec rxm :: "rx \<Rightarrow> bool \<Rightarrow> rxpos \<Rightarrow> rxcaps \<Rightarrow> (rxpos \<Rightarrow> rxcaps \<Rightarrow> 'a option) \<Rightarrow> 'a option" where
  "rxm (Chr p) ci st caps k =
     (case snd st of
        [] \<Rightarrow> None
      | c # cs \<Rightarrow> if unitEq ci p c then k (Some c, cs) caps else None)"
| "rxm (Lit p) ci st caps k =
     (case litRun ci p (fst st) (snd st) of
        None \<Rightarrow> None
      | Some st' \<Rightarrow> k st' caps)"
| "rxm (Cls P) ci st caps k =
     (case snd st of
        [] \<Rightarrow> None
      | c # cs \<Rightarrow> if P c then k (Some c, cs) caps else None)"
| "rxm (Star P) ci st caps k = starRun P (fst st) (snd st) (\<lambda>st'. k st' caps)"
| "rxm (Plus P) ci st caps k =
     (case snd st of
        [] \<Rightarrow> None
      | c # cs \<Rightarrow> if P c then starRun P (Some c) cs (\<lambda>st'. k st' caps) else None)"
| "rxm (Opt P) ci st caps k =
     (case snd st of
        [] \<Rightarrow> k st caps
      | c # cs \<Rightarrow> if P c then (case k (Some c, cs) caps of
                                Some r \<Rightarrow> Some r
                              | None \<Rightarrow> k st caps)
                else k st caps)"
| "rxm Bol ci st caps k = (if fst st = None then k st caps else None)"
| "rxm Eol ci st caps k = (if snd st = [] then k st caps else None)"
| "rxm WordB ci st caps k = (if atWordBoundary st then k st caps else None)"
| "rxm Eps ci st caps k = k st caps"
| "rxm (Seq a b) ci st caps k = rxm a ci st caps (\<lambda>st' caps'. rxm b ci st' caps' k)"
| "rxm (Alt a b) ci st caps k =
     (case rxm a ci st caps k of
        Some r \<Rightarrow> Some r
      | None \<Rightarrow> rxm b ci st caps k)"
| "rxm (Grp a) ci st caps k =
     rxm a ci st caps (\<lambda>st' caps'. k st' (caps' @ [(snd st, snd st')]))"

text \<open>A match at one position gives the rest of the subject after it and the captures.\<close>

definition rxMatchAt :: "rx \<Rightarrow> bool \<Rightarrow> rxpos \<Rightarrow> (jstring \<times> rxcaps) option" where
  "rxMatchAt r ci st = rxm r ci st [] (\<lambda>st' caps. Some (snd st', caps))"

text \<open>
  The first match, trying the start positions from the left: its index, the subject from
  there on, the rest after the match, and the captures.
\<close>

record rxmatch =
  mIndex :: nat
  mFrom :: jstring
  mRest :: jstring
  mCaps :: rxcaps

fun rxSearchFrom :: "rx \<Rightarrow> bool \<Rightarrow> nat \<Rightarrow> nat option \<Rightarrow> jstring \<Rightarrow> rxmatch option" where
  "rxSearchFrom r ci i prev [] =
     (case rxMatchAt r ci (prev, []) of
        Some (rest, caps) \<Rightarrow> Some \<lparr>mIndex = i, mFrom = [], mRest = rest, mCaps = caps\<rparr>
      | None \<Rightarrow> None)"
| "rxSearchFrom r ci i prev (c # cs) =
     (case rxMatchAt r ci (prev, c # cs) of
        Some (rest, caps) \<Rightarrow> Some \<lparr>mIndex = i, mFrom = c # cs, mRest = rest, mCaps = caps\<rparr>
      | None \<Rightarrow> rxSearchFrom r ci (i + 1) (Some c) cs)"

definition rxExec :: "rx \<Rightarrow> bool \<Rightarrow> jstring \<Rightarrow> rxmatch option" where
  "rxExec r ci s = rxSearchFrom r ci 0 None s"

text \<open>\<open>regex.test(s)\<close>, and \<open>s.match(regex)\<close> used as a condition.\<close>

definition rxTest :: "rx \<Rightarrow> bool \<Rightarrow> jstring \<Rightarrow> bool" where
  "rxTest r ci s = (case rxExec r ci s of None \<Rightarrow> False | Some m \<Rightarrow> True)"

definition spanText :: "jstring \<times> jstring \<Rightarrow> jstring" where
  "spanText sp = take (length (fst sp) - length (snd sp)) (fst sp)"

text \<open>The text of the whole match, \<open>match[0]\<close>, and of the groups, \<open>$1\<close>, \<open>$2\<close>, ...\<close>

definition matchText :: "rxmatch \<Rightarrow> jstring" where
  "matchText m = spanText (mFrom m, mRest m)"

definition groups :: "rxmatch \<Rightarrow> jstring list" where
  "groups m = map spanText (mCaps m)"

definition group :: "jstring list \<Rightarrow> nat \<Rightarrow> jstring" where
  "group gs n = (if 1 \<le> n \<and> n \<le> length gs then gs ! (n - 1) else [])"

text \<open>
  \<open>s.replace(regex, replacement)\<close> without the flag \<open>g\<close>: the first match is replaced;
  the replacement is given as a function of the groups.
\<close>

definition rxReplace :: "rx \<Rightarrow> bool \<Rightarrow> (jstring list \<Rightarrow> jstring) \<Rightarrow> jstring \<Rightarrow> jstring" where
  "rxReplace r ci repl s =
     (case rxExec r ci s of
        None \<Rightarrow> s
      | Some m \<Rightarrow> take (mIndex m) s @ repl (groups m) @ mRest m)"

text \<open>
  With the flag \<open>g\<close>: every match is replaced, each search starting where the match before
  it ended (one code unit further after an empty match). \<open>skip\<close> counts the code units of
  the current match that are still to be passed over.
\<close>

fun rxReplaceAllFrom ::
  "rx \<Rightarrow> bool \<Rightarrow> (jstring list \<Rightarrow> jstring) \<Rightarrow> nat \<Rightarrow> nat option \<Rightarrow> jstring \<Rightarrow> jstring" where
  "rxReplaceAllFrom r ci repl skip prev [] =
     (if 0 < skip then []
      else (case rxMatchAt r ci (prev, []) of
              None \<Rightarrow> []
            | Some (rest, caps) \<Rightarrow> repl (map spanText caps)))"
| "rxReplaceAllFrom r ci repl skip prev (c # cs) =
     (if 0 < skip then rxReplaceAllFrom r ci repl (skip - 1) (Some c) cs
      else (case rxMatchAt r ci (prev, c # cs) of
              None \<Rightarrow> c # rxReplaceAllFrom r ci repl 0 (Some c) cs
            | Some (rest, caps) \<Rightarrow>
                (if length rest = length (c # cs)
                 then repl (map spanText caps) @ c # rxReplaceAllFrom r ci repl 0 (Some c) cs
                 else repl (map spanText caps)
                      @ rxReplaceAllFrom r ci repl (length cs - length rest) (Some c) cs)))"

definition rxReplaceAll :: "rx \<Rightarrow> bool \<Rightarrow> (jstring list \<Rightarrow> jstring) \<Rightarrow> jstring \<Rightarrow> jstring" where
  "rxReplaceAll r ci repl s = rxReplaceAllFrom r ci repl 0 None s"

text \<open>A list of alternatives and a list of successive parts as one pattern.\<close>

definition alts :: "rx list \<Rightarrow> rx" where
  "alts rs = (case rs of [] \<Rightarrow> Eps | r # rs' \<Rightarrow> foldl Alt r rs')"

definition seqs :: "rx list \<Rightarrow> rx" where
  "seqs rs = foldr Seq rs Eps"

section \<open>The title priority scorer\<close>

text \<open>The fixed list \<^verbatim>\<open>TITLE_PRIORITY\<close>, in the order of the source.\<close>

definition TITLE_PRIORITY :: "jstring list" where
  "TITLE_PRIORITY = map js
    [''chief people officer'', ''chief human resources officer'', ''chro'',
     ''head of hr'', ''head of human resources'', ''head of people'', ''head of talent'',
     ''hr director'', ''human resources director'', ''people director'', ''talent director'',
     ''talent acquisition director'',
     ''vp of hr'', ''vp of human resources'', ''vp of people'', ''vp of talent'',
     ''vp of talent acquisition'',
     ''people operations'', ''people ops'', ''talent operations'',
     ''hr manager'', ''human resources manager'', ''people manager'', ''talent manager'',
     ''talent acquisition manager'',
     ''hr specialist'', ''human resources specialist'', ''people specialist'',
     ''talent specialist'',
     ''recruiter'', ''talent recruiter'', ''technical recruiter'', ''executive recruiter'',
     ''hr'', ''human resources'', ''people'', ''talent'', ''talent acquisition'',
     ''ceo'', ''chief executive officer'',
     ''president'',
     ''coo'', ''chief operating officer'',
     ''chief people officer'', ''chief talent officer'',
     ''chief'',
     ''regional director'', ''area director'', ''district director'',
     ''regional manager'', ''area manager'', ''district manager'',
     ''regional'', ''area'', ''district'',
     ''director of operations'', ''operations director'',
     ''director of hr'', ''director of human resources'', ''director of people'',
     ''director of recruiting'', ''recruiting director'',
     ''director'',
     ''vice president'', ''vp'',
     ''general manager'', ''gm'',
     ''manager'',
     ''executive'',
     ''founder'', ''owner'', ''partner'',
     ''recruiting'', ''hiring'', ''employment'', ''personnel'']"

text \<open>The role and level synonyms of \<^verbatim>\<open>getTitlePriority\<close>, as pairs \<open>(key, alt)\<close>.\<close>

definition roleTypes :: "(jstring \<times> jstring) list" where
  "roleTypes = [(js ''hr'', js ''human resources''),
                (js ''talent'', js ''talent acquisition''),
                (js ''people'', js ''people operations'')]"

definition levelTypes :: "(jstring \<times> jstring) list" where
  "levelTypes = [(js ''manager'', js ''manager of''),
                 (js ''director'', js ''director of''),
                 (js ''vp'', js ''vice president''),
                 (js ''head'', js ''head of''),
                 (js ''chief'', js ''chief'')]"

text \<open>The eight patterns A to H built for one role and one level.\<close>

definition rolePatterns :: "jstring \<times> jstring \<Rightarrow> jstring \<times> jstring \<Rightarrow> jstring list" where
  "rolePatterns role level =
     [fst role @ js '' '' @ fst level,
      fst level @ js '' of '' @ fst role,
      fst level @ js '', '' @ fst role,
      snd role @ js '' '' @ fst level,
      fst level @ js '' of '' @ snd role,
      fst level @ js '', '' @ snd role,
      snd level @ js '' '' @ fst role,
      snd level @ js '' '' @ snd role]"

definition standardIndex :: "jstring \<times> jstring \<Rightarrow> jstring \<times> jstring \<Rightarrow> nat option" where
  "standardIndex role level =
     (case arrayIndexOf TITLE_PRIORITY (fst role @ js '' '' @ fst level) of
        Some i \<Rightarrow> Some i
      | None \<Rightarrow> arrayIndexOf TITLE_PRIORITY (snd role @ js '' '' @ fst level))"

text \<open>
  The two nested loops over the roles and the levels: the first combination that has a
  standard form in the list and a pattern occurring in the title returns that index.
\<close>

fun roleLevelScan :: "jstring \<Rightarrow> ((jstring \<times> jstring) \<times> (jstring \<times> jstring)) list \<Rightarrow> nat option" where
  "roleLevelScan lowerTitle [] = None"
| "roleLevelScan lowerTitle ((role, level) # rest) =
     (case standardIndex role level of
        None \<Rightarrow> roleLevelScan lowerTitle rest
      | Some i \<Rightarrow>
          if some (str_includes lowerTitle) (rolePatterns role level) then Some i
          else roleLevelScan lowerTitle rest)"

text \<open>The loop of the special handling of VP titles, from index \<open>i\<close> on.\<close>

fun vpScan :: "jstring \<Rightarrow> nat \<Rightarrow> jstring list \<Rightarrow> nat option" where
  "vpScan lowerTitle i [] = None"
| "vpScan lowerTitle i (term # terms) =
     (if startsWith term (js ''vp of '') \<and> str_includes lowerTitle (substringFrom term 6)
      then Some i
      else vpScan lowerTitle (i + 1) terms)"

text \<open>\<^verbatim>\<open>/(^|\s)chief($|\s|,)/\<close>\<close>

definition chiefRx :: rx where
  "chiefRx = seqs [Alt Bol (Cls isSpace), Lit (js ''chief''),
                   Alt Eol (Alt (Cls isSpace) (Chr 44))]"

definition isRealChief :: "jstring \<Rightarrow> bool" where
  "isRealChief lowerTitle =
     (if rxTest chiefRx False lowerTitle then True
      else str_includes lowerTitle (js ''chief '')
           \<and> \<not> str_includes lowerTitle (js ''chief cook''))"

text \<open>The final loop over the list, from index \<open>i\<close> on; the \<^verbatim>\<open>break\<close>s return the index.\<close>

fun substringScan :: "jstring \<Rightarrow> nat \<Rightarrow> jstring list \<Rightarrow> nat option" where
  "substringScan lowerTitle i [] = None"
| "substringScan lowerTitle i (priorityTerm # terms) =
     (if str_includes priorityTerm (js '' '')
         \<and> every (str_includes lowerTitle) (splitUnit 32 priorityTerm)
      then Some i
      else if priorityTerm = js ''chief'' \<and> str_includes lowerTitle (js ''chief'')
      then (if isRealChief lowerTitle then Some i
            else substringScan lowerTitle (i + 1) terms)
      else if str_includes lowerTitle priorityTerm then Some i
      else substringScan lowerTitle (i + 1) terms)"

text \<open>
  \<^verbatim>\<open>getTitlePriority(title)\<close>. An undefined and an empty title are the falsy ones.
\<close>

definition getTitlePriority :: "jstring option \<Rightarrow> nat" where
  "getTitlePriority title =
     (case title of
        None \<Rightarrow> length TITLE_PRIORITY + 1
      | Some t \<Rightarrow>
          if t = [] then length TITLE_PRIORITY + 1
          else
            let lowerTitle = toLowerCase t in
            (case arrayIndexOf TITLE_PRIORITY lowerTitle of
               Some exactMatchIndex \<Rightarrow> exactMatchIndex
             | None \<Rightarrow>
                 (case roleLevelScan lowerTitle (List.product roleTypes levelTypes) of
                    Some i \<Rightarrow> i
                  | None \<Rightarrow>
                      (case (if (str_includes lowerTitle (js ''vp'')
                                  \<or> str_includes lowerTitle (js ''vice president''))
                                \<and> (str_includes lowerTitle (js ''hr'')
                                     \<or> str_includes lowerTitle (js ''human resources'')
                                     \<or> str_includes lowerTitle (js ''people'')
                                     \<or> str_includes lowerTitle (js ''talent''))
                             then vpScan lowerTitle 0 TITLE_PRIORITY else None) of
                         Some i \<Rightarrow> i
                       | None \<Rightarrow>
                           (case substringScan lowerTitle 0 TITLE_PRIORITY of
                              Some i \<Rightarrow> i
                            | None \<Rightarrow> length TITLE_PRIORITY + 1)))))"

section \<open>The company name parser\<close>

subsection \<open>The tables\<close>

text \<open>
  \<^verbatim>\<open>EXCLUDED_COMPANIES\<close> is a set of lower-cased names; the two variants of the scraper
  differ in one entry (\<open>STARR\<close>). \<^verbatim>\<open>PARTIAL_EXCLUSIONS\<close> is the same in both.
\<close>

definition EXCLUDED_COMPANIES :: "jstring list" where
  "EXCLUDED_COMPANIES = map (\<lambda>name. toLowerCase (js name))
    [''Alliance Personnel'', ''August Point Advisors'', ''Bon Appetit'',
     ''Capital Restaurant Associates'',
     ''Chartwells'', ''Compass'', ''CORE Recruitment'', ''EHS Recruiting'',
     ''Empowered Hospitality'',
     ''Eurest'', ''Goodwin Recruiting'', ''HMG Plus - New York'', ''LSG Sky Chefs'',
     ''Major Food Group'',
     ''Measured HR'', ''One Haus'', ''Patrice & Associates'', ''Persone NYC'',
     ''Playbook Advisors'',
     ''Restaurant Associates'', ''Source One Hospitality'', ''STARR'', ''Ten Five Hospitality'',
     ''The Goodkind Group'', ''Tuttle Hospitality'', ''Willow Tree Recruiting'',
     ''washington'', ''washington dc'', ''washington d.c.'', ''washington d c'']"

definition EXCLUDED_COMPANIES_2 :: "jstring list" where
  "EXCLUDED_COMPANIES_2 = map (\<lambda>name. toLowerCase (js name))
    [''Alliance Personnel'', ''August Point Advisors'', ''Bon Appetit'',
     ''Capital Restaurant Associates'',
     ''Chartwells'', ''Compass'', ''CORE Recruitment'', ''EHS Recruiting'',
     ''Empowered Hospitality'',
     ''Eurest'', ''Goodwin Recruiting'', ''HMG Plus - New York'', ''LSG Sky Chefs'',
     ''Major Food Group'',
     ''Measured HR'', ''One Haus'', ''Patrice & Associates'', ''Persone NYC'',
     ''Playbook Advisors'',
     ''Restaurant Associates'', ''Source One Hospitality'', ''Ten Five Hospitality'',
     ''The Goodkind Group'', ''Tuttle Hospitality'', ''Willow Tree Recruiting'',
     ''washington'', ''washington dc'', ''washington d.c.'', ''washington d c'']"

definition PARTIAL_EXCLUSIONS :: "jstring list" where
  "PARTIAL_EXCLUSIONS = map (\<lambda>name. toLowerCase (js name)) [''whole foods'']"

definition genericTerms :: "jstring list" where
  "genericTerms = map js
    [''restaurant group'', ''hospitality group'', ''restaurant'', ''hospitality'',
     ''group'', ''consulting'', ''management'', ''restaurant consulting'',
     ''hospitality consulting'', ''food and beverage'', ''f&b'',
     ''bar'', ''cafe'', ''bistro'', ''tavern'', ''eatery'', ''catering'',
     ''culinary'', ''culinary group'', ''bakery'', ''dining'', ''dining group'',
     ''restaurant management'', ''hospitality management'', ''fine dining'']"

definition commonLocations :: "jstring list" where
  "commonLocations = map js
    [''New York'', ''Los Angeles'', ''Chicago'', ''Houston'', ''Phoenix'', ''Philadelphia'',
     ''San Antonio'', ''San Diego'', ''Dallas'', ''San Jose'', ''Austin'', ''Jacksonville'',
     ''Fort Worth'', ''Columbus'', ''Indianapolis'', ''Charlotte'', ''San Francisco'',
     ''Seattle'', ''Denver'', ''Washington'', ''Boston'', ''El Paso'', ''Nashville'',
     ''Detroit'', ''Oklahoma City'', ''Portland'', ''Las Vegas'', ''Memphis'', ''Louisville'',
     ''Baltimore'', ''Milwaukee'', ''Albuquerque'', ''Tucson'', ''Fresno'', ''Sacramento'',
     ''Kansas City'', ''Miami'', ''Omaha'', ''Raleigh'', ''Oakland'', ''Minneapolis'',
     ''Tulsa'', ''Cleveland'', ''Wichita'', ''Arlington'', ''New Orleans'', ''Bakersfield'',
     ''Tampa'', ''Honolulu'', ''Aurora'', ''Anaheim'', ''Santa Ana'', ''St. Louis'',
     ''Pittsburgh'', ''Cincinnati'', ''Henderson'', ''Riverside'', ''St. Paul'',
     ''Manhattan'', ''Brooklyn'', ''Queens'', ''The Bronx'', ''Staten Island'', ''NYC'',
     ''NY'', ''LA'', ''IL'', ''CA'', ''FL'', ''TX'', ''GA'', ''MA'', ''SF'', ''DC'', ''PA'',
     ''WA'', ''CO'', ''AZ'', ''TN'', ''MO'', ''OR'', ''NV'', ''KY'', ''IN'', ''OH'', ''NC'',
     ''MI'', ''MD'', ''VA'', ''NJ'', ''MN'']"

definition restaurantKeywords :: "jstring list" where
  "restaurantKeywords = map js
    [''restaurants by'', ''restaurants of'', ''restaurant group'', ''hospitality group'',
     ''dining group'', ''food group'', ''culinary group'', ''chef'', ''kitchen'',
     ''bistro'', ''cafe'', ''dining'', ''eatery'', ''tavern'', ''grill'', ''restaurant'']"

definition jobTitlePrefixes :: "jstring list" where
  "jobTitlePrefixes = map js
    [''chef'', ''sous chef'', ''pastry chef'', ''head chef'', ''executive chef'',
     ''general manager'', ''assistant manager'', ''manager'', ''director'',
     ''server'', ''bartender'', ''host'', ''hostess'', ''cook'', ''line cook'',
     ''a.m.'', ''p.m.'', ''morning'', ''evening'', ''night'', ''day'', ''weekend'']"

definition standaloneTerms :: "jstring list" where
  "standaloneTerms = map js
    [''restaurant'', ''hospitality'', ''bar'', ''cafe'', ''bistro'', ''tavern'',
     ''eatery'', ''catering'', ''culinary'', ''bakery'', ''dining'']"

definition validLocationPrefixTerms :: "jstring list" where
  "validLocationPrefixTerms = map js
    [''brewery'', ''culinary'', ''dining'', ''restaurants'', ''kitchen'', ''tavern'', ''bistro'']"

subsection \<open>The regular expressions\<close>

text \<open>
  A pattern built with \<^verbatim>\<open>new RegExp\<close> from a place name: a dot of the name (as in
  \<open>St. Louis\<close>) is the wildcard, every other character of the place names is literal.
\<close>

fun rxOfPieces :: "jstring list \<Rightarrow> rx" where
  "rxOfPieces [] = Eps"
| "rxOfPieces [piece] = Lit piece"
| "rxOfPieces (piece # rest) = Seq (Lit piece) (Seq (Cls dot) (rxOfPieces rest))"

definition rxOfText :: "jstring \<Rightarrow> rx" where
  "rxOfText s = rxOfPieces (splitUnit 46 s)"

text \<open>\<^verbatim>\<open>new RegExp(`([a-z])${location}`, 'i')\<close>\<close>

definition cityPattern :: "jstring \<Rightarrow> rx" where
  "cityPattern location = Seq (Grp (Cls isAsciiLetter)) (rxOfText location)"

text \<open>
  The regular expression literal \<^verbatim>\<open>/Hour${location}/i\<close>: in a literal nothing is
  substituted, so this is \<open>Hour\<close>, the end of the input, and the text \<open>{location}\<close>.
\<close>

definition hourLiteralPattern :: rx where
  "hourLiteralPattern = seqs [Lit (js ''Hour''), Eol, Lit (js ''{location}'')]"

text \<open>\<^verbatim>\<open>new RegExp(`Hour${location}`, 'i')\<close>\<close>

definition hourPattern :: "jstring \<Rightarrow> rx" where
  "hourPattern location = Seq (Lit (js ''Hour'')) (rxOfText location)"

text \<open>
  \<^verbatim>\<open>/(\b(?:hour|room|cafe|bar|club|bistro|grill|tap|lounge|den|pub|inn|shop|house|bakery))([A-Z][a-z]+)/i\<close>
\<close>

definition wordBoundaryPattern :: rx where
  "wordBoundaryPattern =
     Seq (Grp (Seq WordB (alts (map (\<lambda>w. Lit (js w))
            [''hour'', ''room'', ''cafe'', ''bar'', ''club'', ''bistro'', ''grill'', ''tap'',
             ''lounge'', ''den'', ''pub'', ''inn'', ''shop'', ''house'', ''bakery'']))))
         (Grp (Seq (Cls isAsciiLetter) (Plus isAsciiLetter)))"

text \<open>The class \<^verbatim>\<open>[A-Z\s.'&]\<close> under the flag \<open>i\<close>.\<close>

definition capsClass :: "nat \<Rightarrow> bool" where
  "capsClass c = (isAsciiLetter c \<or> isSpace c \<or> c = 46 \<or> c = 39 \<or> c = 38)"

text \<open>
  \<^verbatim>\<open>/^[A-Z\s.'&]+\s+RESTAURANT\s+GROUP$/i\<close> and its three siblings, by their two last
  words.
\<close>

definition allCapsPattern :: "string \<Rightarrow> string \<Rightarrow> rx" where
  "allCapsPattern w1 w2 =
     seqs [Bol, Plus capsClass, Plus isSpace, Lit (js w1), Plus isSpace, Lit (js w2), Eol]"

definition allCapsPatterns :: "rx list" where
  "allCapsPatterns =
     [allCapsPattern ''RESTAURANT'' ''GROUP'', allCapsPattern ''HOSPITALITY'' ''GROUP'',
      allCapsPattern ''FINE'' ''DINING'', allCapsPattern ''CULINARY'' ''GROUP'']"

text \<open>\<^verbatim>\<open>/^(.+\s+)restaurant\s+group$/i\<close> and its six siblings.\<close>

definition endingPattern :: "string \<Rightarrow> string \<Rightarrow> rx" where
  "endingPattern w1 w2 =
     seqs [Bol, Grp (Seq (Plus dot) (Plus isSpace)), Lit (js w1), Plus isSpace, Lit (js w2), Eol]"

definition excludedEndingPatterns :: "rx list" where
  "excludedEndingPatterns =
     [endingPattern ''restaurant'' ''group'', endingPattern ''hospitality'' ''group'',
      endingPattern ''fine'' ''dining'', endingPattern ''culinary'' ''group'',
      endingPattern ''dining'' ''group'', endingPattern ''restaurant'' ''management'',
      endingPattern ''hospitality'' ''management'']"

text \<open>\<^verbatim>\<open>/Group\s*NYC\b/i\<close>\<close>

definition groupNycPattern :: rx where
  "groupNycPattern = seqs [Lit (js ''Group''), Star isSpace, Lit (js ''NYC''), WordB]"

text \<open>\<^verbatim>\<open>new RegExp(`([a-zA-Z])(${location}\\b)`, 'i')\<close>\<close>

definition locationRegex :: "jstring \<Rightarrow> rx" where
  "locationRegex location = Seq (Grp (Cls isAsciiLetter)) (Grp (Seq (rxOfText location) WordB))"

text \<open>\<^verbatim>\<open>/\s|,|\./\<close>\<close>

definition boundaryCharPattern :: rx where
  "boundaryCharPattern = alts [Cls isSpace, Chr 44, Chr 46]"

text \<open>\<^verbatim>\<open>/([a-z])([A-Z])/g\<close>\<close>

definition camelCasePattern :: rx where
  "camelCasePattern = Seq (Grp (Cls isLowerAscii)) (Grp (Cls isUpperAscii))"

text \<open>\<^verbatim>\<open>/\s+(LLC|Inc|Corporation|Corp|Co\.|Co)\.?$/i\<close>\<close>

definition entitySuffixPattern :: rx where
  "entitySuffixPattern =
     seqs [Plus isSpace,
           Grp (alts [Lit (js ''LLC''), Lit (js ''Inc''), Lit (js ''Corporation''),
                      Lit (js ''Corp''), Lit (js ''Co.''), Lit (js ''Co'')]),
           Opt (\<lambda>c. c = 46), Eol]"

text \<open>\<^verbatim>\<open>/(square|food|hospitality|culinary|entertainment)\s+group$/i\<close>\<close>

definition protectedGroupPattern :: rx where
  "protectedGroupPattern =
     seqs [Grp (alts (map (\<lambda>w. Lit (js w))
                  [''square'', ''food'', ''hospitality'', ''culinary'', ''entertainment''])),
           Plus isSpace, Lit (js ''group''), Eol]"

text \<open>
  \<^verbatim>\<open>/\s+(restaurant|bar|cafe'|cafe|grill|bistro|tavern|kitchen)$/i\<close>, where \<open>e'\<close> stands for
  the letter U+00E9 of the third alternative.
\<close>

definition genericSuffixPattern :: rx where
  "genericSuffixPattern =
     seqs [Plus isSpace,
           Grp (alts [Lit (js ''restaurant''), Lit (js ''bar''), Lit (js ''caf'' @ [233]),
                      Lit (js ''cafe''), Lit (js ''grill''), Lit (js ''bistro''),
                      Lit (js ''tavern''), Lit (js ''kitchen'')]),
           Eol]"

subsection \<open>The steps\<close>

record parsedCompany =
  p_name :: jstring
  p_location :: jstring

definition unknownCompany :: parsedCompany where
  "unknownCompany = \<lparr>p_name = js ''Unknown'', p_location = []\<rparr>"

text \<open>
  Step 0: the early exclusion over the cleaned raw name. A partial exclusion gives the
  name \<open>Excluded: term\<close>, an exact one the name \<open>Excluded\<close>.
\<close>

fun partialExclusion :: "jstring \<Rightarrow> jstring list \<Rightarrow> jstring option" where
  "partialExclusion normalizedRawName [] = None"
| "partialExclusion normalizedRawName (excludedName # rest) =
     (if str_includes normalizedRawName (removeSpaces excludedName)
      then Some (js ''Excluded: '' @ excludedName)
      else partialExclusion normalizedRawName rest)"

definition earlyExclusion :: "jstring list \<Rightarrow> jstring \<Rightarrow> jstring option" where
  "earlyExclusion excluded rawName =
     (let cleanedRawName = cleanSpecialCharacters (Some rawName);
          normalizedRawName = removeSpaces (toLowerCase cleanedRawName)
      in case partialExclusion normalizedRawName PARTIAL_EXCLUSIONS of
           Some n \<Rightarrow> Some n
         | None \<Rightarrow>
             if some (str_includes (toLowerCase cleanedRawName)) excluded
             then Some (js ''Excluded'') else None)"

text \<open>Step 1: does the cleaned, lower-cased raw name start with a place name?\<close>

definition startsWithLocation :: "jstring \<Rightarrow> bool" where
  "startsWithLocation rawNameLower =
     some (\<lambda>loc. startsWith rawNameLower (toLowerCase loc)) commonLocations"

text \<open>
  Step 2.5, first part: the loop that puts a space before a place name of five
  characters or more that is glued to the letter before it.
\<close>

definition fixCity :: "jstring \<Rightarrow> jstring \<Rightarrow> jstring" where
  "fixCity namePart location =
     (if 5 \<le> length location \<and> str_includes namePart location
         \<and> \<not> str_includes namePart (js '' '' @ location)
      then (if rxTest (cityPattern location) True namePart
            then (if rxTest hourLiteralPattern True namePart
                  then rxReplace (hourPattern location) True (\<lambda>gs. js ''Hour '' @ location) namePart
                  else rxReplace (cityPattern location) True
                         (\<lambda>gs. group gs 1 @ js '' '' @ location) namePart)
            else namePart)
      else namePart)"

definition fixCities :: "jstring \<Rightarrow> jstring" where
  "fixCities namePart = foldl fixCity namePart commonLocations"

text \<open>Step 2.5, second part: a space after a venue word glued to the next word.\<close>

definition fixWordBoundary :: "jstring \<Rightarrow> jstring" where
  "fixWordBoundary namePart =
     (if \<not> str_includes namePart (js ''Barbecue'') \<and> \<not> str_includes namePart (js '' - '')
      then (if rxTest wordBoundaryPattern True namePart
            then rxReplace wordBoundaryPattern True
                   (\<lambda>gs. group gs 1 @ js '' '' @ group gs 2) namePart
            else namePart)
      else namePart)"

text \<open>Step 3: the whole-name forms that are kept as they are.\<close>

definition preservedWhole :: "jstring \<Rightarrow> bool" where
  "preservedWhole namePart =
     (if some (\<lambda>r. rxTest r True namePart) allCapsPatterns then True
      else some (\<lambda>r. rxTest r True namePart) excludedEndingPatterns)"

text \<open>
  The loop over the restaurant keywords. For one keyword, \<open>keywordCandidate\<close> is the name
  the loop would take (at its \<^verbatim>\<open>break\<close>), or \<open>None\<close> where it goes on to the next
  keyword.
\<close>

fun keywordEnd :: "jstring \<Rightarrow> nat \<Rightarrow> nat \<Rightarrow> jstring list \<Rightarrow> nat" where
  "keywordEnd namePart startIndex endIndex [] = endIndex"
| "keywordEnd namePart startIndex endIndex (location # rest) =
     (case indexOfFrom namePart location startIndex of
        None \<Rightarrow> keywordEnd namePart startIndex endIndex rest
      | Some locationIndex \<Rightarrow>
          if startIndex < locationIndex \<and> locationIndex < endIndex then locationIndex
          else keywordEnd namePart startIndex endIndex rest)"

definition keywordCandidate :: "jstring \<Rightarrow> jstring \<Rightarrow> jstring option" where
  "keywordCandidate namePart keyword =
     (case indexOf (toLowerCase namePart) keyword of
        None \<Rightarrow> None
      | Some index \<Rightarrow>
          if 3 < index then
            (let beforeKeyword = trim (substring namePart 0 index) in
             if 2 \<le> length (splitSpaces beforeKeyword) then None
             else
               let startIndex = index;
                   endIndex = keywordEnd namePart startIndex (length namePart) commonLocations;
                   potentialCompany = trim (substring namePart startIndex endIndex);
                   potentialLower = toLowerCase potentialCompany;
                   isExactGenericTerm = (potentialLower \<in> set genericTerms
                      \<or> potentialLower = js ''restaurant group''
                      \<or> potentialLower = js ''fine dining'');
                   wordCount = length (filter (\<lambda>w. 1 < length w) (splitSpaces potentialCompany));
                   isGenericPlusOneWord = (wordCount \<le> 3
                      \<and> (endsWith potentialLower (js '' restaurant group'')
                         \<or> endsWith potentialLower (js '' fine dining'')
                         \<or> endsWith potentialLower (js '' hospitality group'')
                         \<or> endsWith potentialLower (js '' restaurant'')
                         \<or> endsWith potentialLower (js '' hospitality'')))
               in if isExactGenericTerm \<or> isGenericPlusOneWord then None
                  else if length keyword + 2 < length potentialCompany then Some potentialCompany
                  else None)
          else None)"

fun keywordExtract :: "jstring \<Rightarrow> jstring list \<Rightarrow> jstring option" where
  "keywordExtract namePart [] = None"
| "keywordExtract namePart (keyword # rest) =
     (case keywordCandidate namePart keyword of
        Some c \<Rightarrow> Some c
      | None \<Rightarrow> keywordExtract namePart rest)"

text \<open>
  Step 3 as a whole gives the name and the flag \<^verbatim>\<open>extractedFromKeywords\<close>.
\<close>

definition step3 :: "jstring \<Rightarrow> jstring \<times> bool" where
  "step3 namePart =
     (if preservedWhole namePart then (namePart, True)
      else if rxTest groupNycPattern True namePart then (js ''Group NYC Hospitality'', True)
      else (case keywordExtract namePart restaurantKeywords of
              Some c \<Rightarrow> (c, True)
            | None \<Rightarrow> (namePart, False)))"

text \<open>
  Step 4: the place names, longest first, those of more than two characters; the first
  one that follows a letter directly and is followed by white space, a comma, a dot or
  the end cuts the name after that letter.
\<close>

definition sortedLocations :: "jstring list" where
  "sortedLocations = sort_key (\<lambda>location. - int (length location)) commonLocations"

fun cutAtLocation :: "jstring \<Rightarrow> jstring list \<Rightarrow> jstring option" where
  "cutAtLocation namePart [] = None"
| "cutAtLocation namePart (location # rest) =
     (if length location \<le> 2 then cutAtLocation namePart rest
      else (case rxExec (locationRegex location) True namePart of
              None \<Rightarrow> cutAtLocation namePart rest
            | Some m \<Rightarrow>
                (let locationStart = mIndex m + 1;
                     nextCharAfterMatch = take 1 (mRest m);
                     isWordBoundary = (nextCharAfterMatch = []
                        \<or> rxTest boundaryCharPattern False nextCharAfterMatch)
                 in if isWordBoundary then Some (trim (substring namePart 0 locationStart))
                    else cutAtLocation namePart rest)))"

text \<open>Step 5: the name is cut at its last comma, and at the one before it if there is one.\<close>

definition cutAtComma :: "jstring \<Rightarrow> jstring" where
  "cutAtComma namePart =
     (case lastIndexOf namePart 44 of
        None \<Rightarrow> namePart
      | Some commaIndex \<Rightarrow>
          (let firstPart = trim (substring namePart 0 commaIndex) in
           case lastIndexOf firstPart 44 of
             Some earlierCommaIndex \<Rightarrow> trim (substring firstPart 0 earlierCommaIndex)
           | None \<Rightarrow> firstPart))"

definition step45 :: "jstring \<Rightarrow> jstring" where
  "step45 namePart =
     (case cutAtLocation namePart sortedLocations of
        Some n \<Rightarrow> n
      | None \<Rightarrow> cutAtComma namePart)"

text \<open>Step 6: a space between a lower-case and an upper-case letter.\<close>

definition fixCamelCase :: "jstring \<Rightarrow> jstring" where
  "fixCamelCase namePart =
     (if \<not> str_includes namePart (js ''NYC'') \<and> \<not> str_includes namePart (js ''SoHo'')
      then rxReplaceAll camelCasePattern False (\<lambda>gs. group gs 1 @ js '' '' @ group gs 2) namePart
      else namePart)"

text \<open>Step 7: the window of eleven characters before the first \<open>by\<close>.\<close>

definition byWindow :: "jstring \<Rightarrow> jstring" where
  "byWindow namePart =
     (case indexOf namePart (js '' by '') of
        None \<Rightarrow> namePart
      | Some byIndex \<Rightarrow>
          if 0 < byIndex
          then trim (substringFrom namePart (if 11 \<le> byIndex then byIndex - 11 else 0))
          else namePart)"

text \<open>Step 8: the legal-entity suffix, then the generic last word.\<close>

definition stripSuffixes :: "jstring \<Rightarrow> jstring" where
  "stripSuffixes namePart =
     (let namePart = trim (rxReplace entitySuffixPattern True (\<lambda>gs. []) namePart)
      in if \<not> rxTest protectedGroupPattern True namePart
         then trim (rxReplace genericSuffixPattern True (\<lambda>gs. []) namePart)
         else namePart)"

text \<open>Step 9: one job title at the start of the name is removed.\<close>

fun stripJobTitle :: "jstring \<Rightarrow> jstring list \<Rightarrow> jstring" where
  "stripJobTitle namePart [] = namePart"
| "stripJobTitle namePart (prefix # rest) =
     (if startsWith (toLowerCase namePart) (toLowerCase prefix @ js '' '')
      then trim (substringFrom namePart (length prefix))
      else stripJobTitle namePart rest)"

text \<open>Step 10: the final classification.\<close>

definition classify :: "jstring \<Rightarrow> parsedCompany" where
  "classify namePart =
     (let lowerNamePart = toLowerCase namePart in
      if some (\<lambda>term. lowerNamePart = toLowerCase term) genericTerms then unknownCompany
      else if length (filter (\<lambda>w. 0 < length w) (splitSpaces namePart)) = 1
              \<and> 2 < length lowerNamePart \<and> lowerNamePart \<in> set standaloneTerms
      then unknownCompany
      else if some (\<lambda>loc. lowerNamePart = toLowerCase loc) commonLocations then unknownCompany
      else if length namePart < 20
              \<and> \<not> some (\<lambda>term. str_includes lowerNamePart (toLowerCase term))
                     validLocationPrefixTerms
              \<and> some (\<lambda>loc. startsWith lowerNamePart (toLowerCase loc @ js '' ''))
                    commonLocations
      then unknownCompany
      else if length namePart < 3
              \<or> (length namePart \<le> 5 \<and> every (\<lambda>part. length part = 1) (splitUnit 32 namePart))
      then unknownCompany
      else \<lparr>p_name = (if namePart = [] then js ''Unknown'' else namePart), p_location = []\<rparr>)"

subsection \<open>The parser\<close>

text \<open>
  The steps 2 to 10, from the raw name to the result; \<open>excluded\<close> is the exclusion set of
  the variant.
\<close>

definition parseSteps :: "jstring \<Rightarrow> parsedCompany" where
  "parseSteps rawName =
     (let namePart = cleanSpecialCharacters (Some (trim (hd (splitUnit bullet rawName))));
          namePart = fixCities namePart;
          namePart = fixWordBoundary namePart;
          afterStep3 = step3 namePart;
          namePart = fst afterStep3;
          extractedFromKeywords = snd afterStep3;
          namePart = (if \<not> extractedFromKeywords then step45 namePart else namePart);
          namePart = fixCamelCase namePart;
          namePart = (if \<not> extractedFromKeywords \<and> str_includes namePart (js '' by '')
                      then byWindow namePart else namePart);
          namePart = stripSuffixes namePart;
          namePart = stripJobTitle namePart jobTitlePrefixes
      in classify namePart)"

definition parseWith :: "jstring list \<Rightarrow> jstring option \<Rightarrow> parsedCompany" where
  "parseWith excluded rawName =
     (if \<not> truthy rawName \<or> rawName = Some (js ''Unknown'') then unknownCompany
      else
        let raw = the rawName in
        (case earlyExclusion excluded raw of
           Some n \<Rightarrow> \<lparr>p_name = n, p_location = []\<rparr>
         | None \<Rightarrow>
             if startsWithLocation (toLowerCase (cleanSpecialCharacters (Some raw)))
                \<and> str_includes raw [bullet]
             then unknownCompany
             else parseSteps raw))"

text \<open>\<^verbatim>\<open>parseCompanyAndLocation(rawName)\<close> of the first and of the second variant.\<close>

definition parseCompanyAndLocation :: "jstring option \<Rightarrow> parsedCompany" where
  "parseCompanyAndLocation rawName = parseWith EXCLUDED_COMPANIES rawName"

definition parseCompanyAndLocation2 :: "jstring option \<Rightarrow> parsedCompany" where
  "parseCompanyAndLocation2 rawName = parseWith EXCLUDED_COMPANIES_2 rawName"

section \<open>The contact scorer\<close>

text \<open>
  A contact record as the directory returns it. A field that is absent, \<open>undefined\<close> or
  \<open>null\<close> is \<open>None\<close>; \<open>confidence\<close> is present when it is a number. Numbers are
  modelled as reals.
\<close>

record rawEmail =
  e_value :: "jstring option"
  e_email :: "jstring option"
  e_first_name :: "jstring option"
  e_last_name :: "jstring option"
  e_position :: "jstring option"
  e_position_raw :: "jstring option"
  e_confidence :: "real option"
  e_type :: "jstring option"

definition GENERIC_EMAIL_PATTERNS :: "jstring list" where
  "GENERIC_EMAIL_PATTERNS = map js
     [''info@'', ''contact@'', ''hello@'', ''admin@'', ''support@'',
      ''office@'', ''mail@'', ''inquiry@'', ''general@'', ''sales@'',
      ''help@'', ''service@'', ''hr@'', ''jobs@'', ''careers@'',
      ''team@'', ''marketing@'', ''press@'', ''media@'', ''events@'']"

definition isGenericEmail :: "jstring option \<Rightarrow> bool" where
  "isGenericEmail email =
     (if \<not> truthy email then True
      else some (str_includes (toLowerCase (the email))) GENERIC_EMAIL_PATTERNS)"

text \<open>\<^verbatim>\<open>calculateEmailScore(email)\<close>; lower is better.\<close>

definition calculateEmailScore :: "rawEmail option \<Rightarrow> real" where
  "calculateEmailScore email =
     (case email of
        None \<Rightarrow> 1000
      | Some e \<Rightarrow>
          if \<not> truthy (e_value e) then 1000
          else
            let title = orElse (e_position e) (orElse (e_position_raw e) []) in
            if title \<noteq> [] \<and> trim title \<noteq> [] then real (getTitlePriority (Some title))
            else
              let score = 500;
                  score = (if isGenericEmail (e_value e) then score + 200 else score - 100);
                  score = (if truthy (e_first_name e) \<or> truthy (e_last_name e)
                           then score - 50 else score + 50);
                  score = (case e_confidence e of
                             Some c \<Rightarrow> score - c / 2
                           | None \<Rightarrow> score);
                  score = (if truthy (e_type e)
                           then (if e_type e = Some (js ''personal'') then score - 75
                                 else if e_type e = Some (js ''generic'') then score + 25
                                 else score)
                           else score)
              in score)"

text \<open>A processed contact. The merge steps add \<open>source\<close> and \<open>matchesFinalDomain\<close>.\<close>

record contact =
  c_name :: jstring
  c_title :: jstring
  c_email :: jstring
  c_confidence :: real
  c_priority :: real
  c_source :: "jstring option"
  c_matchesFinalDomain :: "bool option"

text \<open>
  The body of the \<^verbatim>\<open>map\<close> in \<^verbatim>\<open>processEmails\<close>: \<open>None\<close> is the \<^verbatim>\<open>null\<close> returned for a
  record without an address.
\<close>

definition scoredEmail :: "rawEmail \<Rightarrow> contact option" where
  "scoredEmail email =
     (let emailValue = orElse (e_value email) (orElse (e_email email) []);
          firstName = orElse (e_first_name email) [];
          lastName = orElse (e_last_name email) [];
          position = orElse (e_position email) (orElse (e_position_raw email) []);
          confidence = (case e_confidence email of None \<Rightarrow> 0 | Some c \<Rightarrow> c)
      in if emailValue = [] then None
         else Some \<lparr>c_name = (if firstName \<noteq> [] \<and> lastName \<noteq> []
                               then trim (firstName @ js '' '' @ lastName)
                               else if firstName \<noteq> [] then firstName
                               else if lastName \<noteq> [] then lastName
                               else js ''Unknown''),
                     c_title = (if position \<noteq> [] then position else js ''N/A''),
                     c_email = emailValue,
                     c_confidence = confidence,
                     c_priority = calculateEmailScore (Some email),
                     c_source = None,
                     c_matchesFinalDomain = None\<rparr>)"

text \<open>
  \<^verbatim>\<open>processEmails(emailsData)\<close> on an array of records, the form in which
  \<^verbatim>\<open>getCompanyInfoWithSource\<close> calls it; \<open>None\<close> is a falsy argument.
  \<^verbatim>\<open>filterNonUSEmails\<close> returns the array it is given. The sort of JavaScript is stable,
  as \<open>sort_key\<close> is.
\<close>

definition filterNonUSEmails :: "rawEmail list \<Rightarrow> rawEmail list" where
  "filterNonUSEmails emails = emails"

definition processEmails :: "rawEmail list option \<Rightarrow> contact list" where
  "processEmails emailsData =
     (case emailsData of
        None \<Rightarrow> []
      | Some emails \<Rightarrow>
          if emails = [] then []
          else
            let processedEmails = filterNonUSEmails emails;
                processedEmails = (if processedEmails = [] then emails else processedEmails);
                scoredEmails = map scoredEmail processedEmails;
                validEmails = List.map_filter (\<lambda>x. x) scoredEmails
            in if validEmails = [] then []
               else sort_key c_priority validEmails)"

section \<open>The merge step of the orchestrator\<close>

text \<open>
  The result of one lookup. The time stamp of the source is the current time and is left
  out.
\<close>

record lookupResult =
  r_linkedin :: jstring
  r_domain :: jstring
  r_size :: jstring
  r_emails :: "contact list"
  r_source :: jstring
  r_originalCompany :: "jstring option"

record mergedResult =
  m_linkedin :: jstring
  m_domain :: jstring
  m_size :: jstring
  m_emails :: "contact list"
  m_source :: jstring
  m_sourcesWithEmails :: nat
  m_parentDomain :: "jstring option"
  m_allDomains :: "jstring list"

text \<open>A \<^verbatim>\<open>Set\<close> keeps its elements in the order of their insertion.\<close>

definition setAdd :: "'a \<Rightarrow> 'a list \<Rightarrow> 'a list" where
  "setAdd x xs = (if x \<in> set xs then xs else xs @ [x])"

text \<open>\<open>xs.join(sep)\<close>\<close>

fun join :: "jstring \<Rightarrow> jstring list \<Rightarrow> jstring" where
  "join sep [] = []"
| "join sep [x] = x"
| "join sep (x # y # ys) = x @ sep @ join sep (y # ys)"

text \<open>\<open>s.split(sep)\<close> for a separator of one code unit or more.\<close>

fun splitOnFrom :: "jstring \<Rightarrow> nat \<Rightarrow> jstring \<Rightarrow> jstring list" where
  "splitOnFrom sep skip [] = [[]]"
| "splitOnFrom sep skip (c # cs) =
     (if 0 < skip then splitOnFrom sep (skip - 1) cs
      else if startsWith (c # cs) sep then [] # splitOnFrom sep (length sep - 1) cs
      else (case splitOnFrom sep 0 cs of
              [] \<Rightarrow> [[c]]
            | w # ws \<Rightarrow> (c # w) # ws))"

definition splitOn :: "jstring \<Rightarrow> jstring \<Rightarrow> jstring list" where
  "splitOn sep s = splitOnFrom sep 0 s"

text \<open>
  The inner loop that adds the contacts of one result: \<open>added\<close> is the set
  \<^verbatim>\<open>addedEmails\<close> of lower-cased addresses, \<open>acc\<close> the list \<^verbatim>\<open>mergedResult.emails\<close>.
  The first variant of \<^verbatim>\<open>getCompanyInfo\<close> (with the results wrapped as
  \<^verbatim>\<open>{source, data}\<close>) adds every contact; the second one skips a contact whose address is
  empty and falls back to the source tag \<^verbatim>\<open>unknown_source\<close>.
\<close>

fun addEmails1 :: "jstring \<Rightarrow> contact list \<Rightarrow> jstring list \<times> contact list \<Rightarrow> jstring list \<times> contact list" where
  "addEmails1 src [] (added, acc) = (added, acc)"
| "addEmails1 src (email # emails) (added, acc) =
     (let emailKey = toLowerCase (c_email email)
      in if emailKey \<notin> set added
         then addEmails1 src emails (added @ [emailKey], acc @ [email\<lparr>c_source := Some src\<rparr>])
         else addEmails1 src emails (added, acc))"

fun addEmails2 :: "jstring \<Rightarrow> contact list \<Rightarrow> jstring list \<times> contact list \<Rightarrow> jstring list \<times> contact list" where
  "addEmails2 src [] (added, acc) = (added, acc)"
| "addEmails2 src (email # emails) (added, acc) =
     (if c_email email \<noteq> []
      then (let emailKey = toLowerCase (c_email email)
            in if emailKey \<notin> set added
               then addEmails2 src emails
                      (added @ [emailKey],
                       acc @ [email\<lparr>c_source := Some (if src = [] then js ''unknown_source'' else src)\<rparr>])
               else addEmails2 src emails (added, acc))
      else addEmails2 src emails (added, acc))"

text \<open>
  The state of the merge loops: the three sets, and the fields of \<^verbatim>\<open>mergedResult\<close> that
  the loop writes.
\<close>

record mergeState =
  ms_added :: "jstring list"
  ms_linkedins :: "jstring list"
  ms_domains :: "jstring list"
  ms_size :: jstring
  ms_emails :: "contact list"
  ms_sourcesWithEmails :: nat

definition mergeInit :: mergeState where
  "mergeInit = \<lparr>ms_added = [], ms_linkedins = [], ms_domains = [], ms_size = js ''N/A'',
                ms_emails = [], ms_sourcesWithEmails = 0\<rparr>"

definition usableLinkedin :: "jstring \<Rightarrow> bool" where
  "usableLinkedin l = (l \<noteq> [] \<and> l \<noteq> js ''N/A'' \<and> l \<noteq> js ''Excluded'' \<and> l \<noteq> js ''Error'')"

subsection \<open>First variant: the results are pairs of a strategy name and a lookup result\<close>

text \<open>The first pass collects the LinkedIn URLs and the domains.\<close>

fun collect1 :: "(jstring \<times> lookupResult) list \<Rightarrow> mergeState \<Rightarrow> mergeState" where
  "collect1 [] st = st"
| "collect1 ((src, d) # rest) st =
     collect1 rest
       (st\<lparr>ms_linkedins := (if usableLinkedin (r_linkedin d)
                              then setAdd (r_linkedin d) (ms_linkedins st) else ms_linkedins st),
            ms_domains := (if r_domain d \<noteq> [] \<and> r_domain d \<noteq> js ''N/A''
                           then setAdd (r_domain d) (ms_domains st) else ms_domains st)\<rparr>)"

text \<open>The second pass, over the results sorted by their number of contacts, descending.\<close>

fun addResults1 :: "(jstring \<times> lookupResult) list \<Rightarrow> mergeState \<Rightarrow> mergeState" where
  "addResults1 [] st = st"
| "addResults1 ((src, d) # rest) st =
     (let (added, emails) = addEmails1 src (r_emails d) (ms_added st, ms_emails st)
      in addResults1 rest
           (st\<lparr>ms_sourcesWithEmails := (if r_emails d \<noteq> [] then ms_sourcesWithEmails st + 1
                                         else ms_sourcesWithEmails st),
                ms_size := (if ms_size st = js ''N/A'' \<and> r_size d \<noteq> js ''N/A''
                            then r_size d else ms_size st),
                ms_added := added,
                ms_emails := emails\<rparr>))"

definition titleRank :: "contact \<Rightarrow> nat" where
  "titleRank c = getTitlePriority (Some (c_title c))"

definition mergeResults1 :: "(jstring \<times> lookupResult) list \<Rightarrow> mergedResult" where
  "mergeResults1 allResults =
     (let st = collect1 allResults mergeInit;
          linkedin = join (js ''; '') (ms_linkedins st);
          domain = join (js ''; '') (ms_domains st);
          sortedResults = sort_key (\<lambda>r. - int (length (r_emails (snd r)))) allResults;
          st = addResults1 sortedResults st
      in \<lparr>m_linkedin = (if linkedin = [] then js ''N/A'' else linkedin),
          m_domain = (if domain = [] then js ''N/A'' else domain),
          m_size = ms_size st,
          m_emails = sort_key titleRank (ms_emails st),
          m_source = js ''merged'',
          m_sourcesWithEmails = ms_sourcesWithEmails st,
          m_parentDomain = None,
          m_allDomains = ms_domains st\<rparr>)"

subsection \<open>Second variant: domain lookups first, one loop\<close>

text \<open>
  \<^verbatim>\<open>getDomainFromUrl(url)\<close>. The constructor \<^verbatim>\<open>URL\<close> of the platform is a parameter:
  \<open>hostname u\<close> is the host name of the parsed \<open>u\<close>, or \<open>None\<close> when the constructor
  throws; the \<^verbatim>\<open>catch\<close> branch then cuts the domain out of the text.
\<close>

definition getDomainFromUrl :: "(jstring \<Rightarrow> jstring option) \<Rightarrow> jstring option \<Rightarrow> jstring option" where
  "getDomainFromUrl hostname url =
     (if \<not> truthy url then None
      else
        let u = the url in
        (case hostname (if startsWith u (js ''http'') then u else js ''http://'' @ u) of
           Some h \<Rightarrow> Some (if startsWith h (js ''www.'') then substringFrom h 4 else h)
         | None \<Rightarrow>
             let domain = rxReplace (seqs [Bol, Lit (js ''http''), Opt (\<lambda>c. c = 115),
                                           Lit (js ''://'')]) False (\<lambda>gs. []) u;
                 domain = rxReplace (seqs [Bol, Lit (js ''www.'')]) False (\<lambda>gs. []) domain;
                 domain = hd (splitUnit 47 domain);
                 domain = hd (splitUnit 63 domain);
                 domain = hd (splitUnit 58 domain)
             in if str_includes domain (js ''.'') then Some domain else None))"

text \<open>The sort key of the second variant: domain lookups first, then more contacts first.\<close>

definition resultRank :: "lookupResult \<Rightarrow> nat \<times> int" where
  "resultRank r = (if str_includes (r_source r) (js ''_domain'') then 0 else 1,
                   - int (length (r_emails r)))"

fun addResults2 :: "lookupResult list \<Rightarrow> mergeState \<Rightarrow> mergeState" where
  "addResults2 [] st = st"
| "addResults2 (r # rest) st =
     (let linkedins = (if usableLinkedin (r_linkedin r)
                       then foldl (\<lambda>acc url. setAdd url acc) (ms_linkedins st)
                              (splitOn (js ''; '') (r_linkedin r))
                       else ms_linkedins st);
          domains = (if r_domain r \<noteq> [] \<and> r_domain r \<noteq> js ''N/A''
                     then setAdd (hd (splitOn (js ''; '') (r_domain r))) (ms_domains st)
                     else ms_domains st);
          size = (if ms_size st = js ''N/A'' \<and> r_size r \<noteq> [] \<and> r_size r \<noteq> js ''N/A''
                  then r_size r else ms_size st);
          (added, emails) = (if r_emails r \<noteq> []
                             then addEmails2 (r_source r) (r_emails r) (ms_added st, ms_emails st)
                             else (ms_added st, ms_emails st))
      in addResults2 rest
           \<lparr>ms_added = added, ms_linkedins = linkedins, ms_domains = domains, ms_size = size,
            ms_emails = emails,
            ms_sourcesWithEmails = (if r_emails r \<noteq> [] then ms_sourcesWithEmails st + 1
                                    else ms_sourcesWithEmails st)\<rparr>)"

text \<open>The flag \<^verbatim>\<open>matchesFinalDomain\<close> of one merged contact.\<close>

definition flagContact :: "(jstring \<Rightarrow> jstring option) \<Rightarrow> jstring list \<Rightarrow> contact \<Rightarrow> contact" where
  "flagContact hostname finalDomains email =
     (if finalDomains \<noteq> [] \<and> c_email email \<noteq> []
      then (case getDomainFromUrl hostname (Some (c_email email)) of
              Some emailDomain \<Rightarrow>
                (if emailDomain \<noteq> []
                 then email\<lparr>c_matchesFinalDomain :=
                        Some (some (\<lambda>fd. toLowerCase fd = toLowerCase emailDomain) finalDomains)\<rparr>
                 else email\<lparr>c_matchesFinalDomain := Some False\<rparr>)
            | None \<Rightarrow> email\<lparr>c_matchesFinalDomain := Some False\<rparr>)
      else email\<lparr>c_matchesFinalDomain := Some False\<rparr>)"

definition mergeResults2 :: "(jstring \<Rightarrow> jstring option) \<Rightarrow> lookupResult list \<Rightarrow> mergedResult" where
  "mergeResults2 hostname allResults =
     (let st = addResults2 (sort_key resultRank allResults) mergeInit;
          linkedin = join (js ''; '') (ms_linkedins st);
          finalDomains = ms_domains st
      in \<lparr>m_linkedin = (if linkedin = [] then js ''N/A'' else linkedin),
          m_domain = (case finalDomains of [] \<Rightarrow> js ''N/A'' | d # ds \<Rightarrow> d),
          m_size = ms_size st,
          m_emails = sort_key titleRank (map (flagContact hostname finalDomains) (ms_emails st)),
          m_source = js ''merged'',
          m_sourcesWithEmails = ms_sourcesWithEmails st,
          m_parentDomain = None,
          m_allDomains = finalDomains\<rparr>)"

section \<open>The enrichment client\<close>

subsection \<open>First variant: the lookup calls the directory\<close>

text \<open>
  \<^verbatim>\<open>cleanCompanyName(input)\<close>, with its two regular expressions
  \<^verbatim>\<open>/\s+(restaurant|bar|cafe'|cafe|grill|bistro|tavern|kitchen|hospitality|group|llc|inc|corporation)\b/gi\<close>
  (\<open>e'\<close> for the letter U+00E9) and \<^verbatim>\<open>/\s+[,-]\s+.*$/\<close>.
\<close>

definition entityWordPattern :: rx where
  "entityWordPattern =
     seqs [Plus isSpace,
           Grp (alts [Lit (js ''restaurant''), Lit (js ''bar''), Lit (js ''caf'' @ [233]),
                      Lit (js ''cafe''), Lit (js ''grill''), Lit (js ''bistro''),
                      Lit (js ''tavern''), Lit (js ''kitchen''), Lit (js ''hospitality''),
                      Lit (js ''group''), Lit (js ''llc''), Lit (js ''inc''),
                      Lit (js ''corporation'')]),
           WordB]"

definition locationMarkerPattern :: rx where
  "locationMarkerPattern =
     seqs [Plus isSpace, Cls (\<lambda>c. c = 44 \<or> c = 45), Plus isSpace, Star dot, Eol]"

definition cleanCompanyName :: "jstring option \<Rightarrow> jstring" where
  "cleanCompanyName input =
     (if \<not> truthy input then []
      else
        let cleaned = trim (rxReplace locationMarkerPattern False (\<lambda>gs. [])
                              (rxReplaceAll entityWordPattern True (\<lambda>gs. []) (the input)))
        in if cleaned = [] then the input else cleaned)"

definition FORCE_FRESH_COMPANIES :: "jstring list" where
  "FORCE_FRESH_COMPANIES = map (\<lambda>name. toLowerCase (js name))
     [''fish cheeks'', ''fish cheeks noho'', ''fish cheeks - noho'']"

text \<open>The constant of the source that switches the cache off.\<close>

definition DISABLE_COMPANY_CACHE :: bool where
  "DISABLE_COMPANY_CACHE = True"

text \<open>
  What the directory answers to one request. The request is identified by the search term
  put into its URL.
\<close>

record companyResult =
  cr_company :: "jstring option"
  cr_domain :: "jstring option"
  cr_linkedin :: "jstring option"
  cr_employees_count :: "jstring option"
  cr_headcount :: "jstring option"
  cr_emails :: "rawEmail list option"

record hunterData =
  d_results :: "companyResult list option"
  d_organization :: "jstring option"
  d_domain :: "jstring option"
  d_linkedin :: "jstring option"
  d_headcount :: "jstring option"
  d_emails :: "rawEmail list option"

datatype apiResponse =
    NoResponse
  | HttpError nat jstring
  | MalformedBody
  | Body "hunterData option"

text \<open>
  \<open>NoResponse\<close> is a request that fails or is overtaken by the timeout;
  \<open>HttpError status text\<close> a response that is not \<open>ok\<close>; \<open>MalformedBody\<close> a body that is
  not JSON; \<open>Body d\<close> a JSON body with its member \<open>data\<close>, if it has one.

  The state the lookup works on: the search terms requested so far, in order, and the
  cache, a map kept as a list of its entries in insertion order. The directory is a
  function of the number of requests made before and of the search term.
\<close>

record world =
  w_calls :: "jstring list"
  w_cache :: "(jstring \<times> lookupResult) list"

type_synonym directory = "nat \<Rightarrow> jstring \<Rightarrow> apiResponse"

definition skippedResult :: "jstring \<Rightarrow> lookupResult" where
  "skippedResult source = \<lparr>r_linkedin = js ''N/A'', r_domain = js ''N/A'', r_size = js ''N/A'',
     r_emails = [], r_source = source, r_originalCompany = None\<rparr>"

definition excludedResult :: "jstring \<Rightarrow> lookupResult" where
  "excludedResult source = \<lparr>r_linkedin = js ''Excluded'', r_domain = js ''N/A'',
     r_size = js ''N/A'', r_emails = [], r_source = source, r_originalCompany = None\<rparr>"

definition errorResult :: "jstring \<Rightarrow> lookupResult" where
  "errorResult source = \<lparr>r_linkedin = js ''Error'', r_domain = js ''N/A'', r_size = js ''N/A'',
     r_emails = [], r_source = source, r_originalCompany = None\<rparr>"

text \<open>The decimal digits of a number, for the template \<^verbatim>\<open>`${source}_result_${i+1}`\<close>.\<close>

function showNat :: "nat \<Rightarrow> jstring" where
  "showNat n = (if n < 10 then [48 + n] else showNat (n div 10) @ [48 + n mod 10])"
  by pat_completeness auto
termination
  by (relation "measure id") auto

text \<open>
  The checks before the request: \<open>Some r\<close> is the result returned without a request,
  \<open>None\<close> lets the lookup go on.
\<close>

definition lookupGuard :: "jstring option \<Rightarrow> jstring \<Rightarrow> lookupResult option" where
  "lookupGuard companyName source =
     (if \<not> truthy companyName \<or> companyName = Some (js ''Unknown'')
         \<or> startsWith (the companyName) (js ''Excluded:'')
      then Some (skippedResult source)
      else
        let cleanedName = cleanCompanyName (Some (cleanSpecialCharacters companyName));
            lowerCleanedName = toLowerCase cleanedName;
            normalizedName = removeSpaces lowerCleanedName
        in if lowerCleanedName \<in> set EXCLUDED_COMPANIES
              \<or> some (\<lambda>excluded. str_includes normalizedName (removeSpaces excluded))
                   EXCLUDED_COMPANIES
           then Some (excludedResult source)
           else if some (\<lambda>partialTerm. str_includes lowerCleanedName partialTerm
                           \<or> str_includes normalizedName (removeSpaces partialTerm))
                     PARTIAL_EXCLUSIONS
           then Some (excludedResult source)
           else None)"

text \<open>The forced refresh: the entry of the key and every entry whose key contains the name.\<close>

definition forceRefresh :: "jstring \<Rightarrow> jstring \<Rightarrow> (jstring \<times> lookupResult) list \<Rightarrow> (jstring \<times> lookupResult) list" where
  "forceRefresh cacheKey lowerCleanedName cache =
     filter (\<lambda>entry. \<not> str_includes (toLowerCase (fst entry)) lowerCleanedName)
       (filter (\<lambda>entry. fst entry \<noteq> cacheKey) cache)"

text \<open>\<open>Map.set\<close>: a new key goes to the end, an old one keeps its place.\<close>

fun cacheSet :: "jstring \<Rightarrow> lookupResult \<Rightarrow> (jstring \<times> lookupResult) list \<Rightarrow> (jstring \<times> lookupResult) list" where
  "cacheSet k v [] = [(k, v)]"
| "cacheSet k v (entry # rest) =
     (if fst entry = k then (k, v) # rest else entry # cacheSet k v rest)"

text \<open>The first result of the list that has contacts, with its position.\<close>

fun bestResult :: "nat \<Rightarrow> companyResult list \<Rightarrow> (nat \<times> companyResult) option" where
  "bestResult i [] = None"
| "bestResult i (r # rs) =
     (case cr_emails r of
        Some (e # es) \<Rightarrow> Some (i, r)
      | _ \<Rightarrow> bestResult (i + 1) rs)"

text \<open>
  The body of the \<^verbatim>\<open>try\<close> block: \<open>Inl\<close> is a thrown error (caught by the
  \<^verbatim>\<open>catch\<close> of the caller below), \<open>Inr\<close> the result returned. The request is recorded
  in the state, and so is the cache entry written when the cache is on.
\<close>

datatype lookupError = RequestFailed | ApiError nat | InvalidResponse

definition fetchCompany ::
  "directory \<Rightarrow> world \<Rightarrow> jstring \<Rightarrow> jstring \<Rightarrow> jstring \<Rightarrow> jstring \<Rightarrow> (lookupError + lookupResult) \<times> world" where
  "fetchCompany api w companyName cleanedName cacheKey source =
     (let cleanCompanyForSearch = trim cleanedName;
          response = api (length (w_calls w)) cleanCompanyForSearch;
          w = w\<lparr>w_calls := w_calls w @ [cleanCompanyForSearch]\<rparr>
      in case response of
           NoResponse \<Rightarrow> (Inl RequestFailed, w)
         | HttpError status text \<Rightarrow> (Inl (ApiError status), w)
         | MalformedBody \<Rightarrow> (Inl InvalidResponse, w)
         | Body None \<Rightarrow> (Inl InvalidResponse, w)
         | Body (Some companyData) \<Rightarrow>
             (case (case d_results companyData of
                      None \<Rightarrow> None
                    | Some results \<Rightarrow> bestResult 0 results) of
                Some (bestResultIndex, best) \<Rightarrow>
                  (Inr \<lparr>r_linkedin = orElse (cr_linkedin best) (js ''N/A''),
                        r_domain = orElse (cr_domain best) (js ''N/A''),
                        r_size = orElse (cr_employees_count best)
                                   (orElse (cr_headcount best) (js ''N/A'')),
                        r_emails = processEmails (cr_emails best),
                        r_source = source @ js ''_result_'' @ showNat (bestResultIndex + 1),
                        r_originalCompany = None\<rparr>, w)
              | None \<Rightarrow>
                  (let processedEmails = (case d_emails companyData of
                                            None \<Rightarrow> []
                                          | Some emails \<Rightarrow> processEmails (Some emails));
                       result = \<lparr>r_linkedin = orElse (d_linkedin companyData) (js ''N/A''),
                                 r_domain = orElse (d_domain companyData) (js ''N/A''),
                                 r_size = orElse (d_headcount companyData) (js ''N/A''),
                                 r_emails = processedEmails,
                                 r_source = source,
                                 r_originalCompany = None\<rparr>
                   in if processedEmails \<noteq> []
                      then (let result = result\<lparr>r_originalCompany := Some companyName\<rparr>
                            in (Inr result,
                                if \<not> DISABLE_COMPANY_CACHE
                                then w\<lparr>w_cache := cacheSet cacheKey result (w_cache w)\<rparr>
                                else w))
                      else (Inr result, w))))"

text \<open>
  \<^verbatim>\<open>getCompanyInfoWithSource(companyName, locationName = '', source = 'company')\<close>.
  The result is \<open>Inr\<close> of the value returned or \<open>Inl\<close> of an error thrown to the caller.
  The call in the \<^verbatim>\<open>catch\<close> block passes the source \<open>location\<close>.
\<close>

function getCompanyInfoWithSource ::
  "directory \<Rightarrow> world \<Rightarrow> jstring option \<Rightarrow> jstring option \<Rightarrow> jstring
     \<Rightarrow> (lookupError + lookupResult) \<times> world" where
  "getCompanyInfoWithSource api w companyName locationName source =
     (case lookupGuard companyName source of
        Some r \<Rightarrow> (Inr r, w)
      | None \<Rightarrow>
          (let name = the companyName;
               cleanedName = cleanCompanyName (Some (cleanSpecialCharacters companyName));
               lowerCleanedName = toLowerCase cleanedName;
               shouldForceRefresh = (lowerCleanedName \<in> set FORCE_FRESH_COMPANIES);
               cacheKey = toLowerCase name @ js '':'' @ source;
               w = (if shouldForceRefresh
                    then w\<lparr>w_cache := forceRefresh cacheKey lowerCleanedName (w_cache w)\<rparr>
                    else w);
               useCaching = (\<not> DISABLE_COMPANY_CACHE \<and> \<not> shouldForceRefresh);
               cached = (if useCaching then map_of (w_cache w) cacheKey else None)
           in case (case cached of
                      Some cachedData \<Rightarrow> if r_emails cachedData \<noteq> [] then Some cachedData else None
                    | None \<Rightarrow> None) of
                Some cachedData \<Rightarrow> (Inr cachedData, w)
              | None \<Rightarrow>
                  (let w = (if cached \<noteq> None
                            then w\<lparr>w_cache := filter (\<lambda>entry. fst entry \<noteq> cacheKey) (w_cache w)\<rparr>
                            else w);
                       attempt = fetchCompany api w name cleanedName cacheKey source
                   in case fst attempt of
                        Inr result \<Rightarrow> (Inr result, snd attempt)
                      | Inl err \<Rightarrow>
                          if source = js ''company'' \<and> truthy locationName
                             \<and> locationName \<noteq> companyName
                          then getCompanyInfoWithSource api (snd attempt) locationName (Some [])
                                 (js ''location'')
                          else (Inr (errorResult source), snd attempt))))"
  by pat_completeness auto
termination
  by (relation "measure (\<lambda>(api, w, companyName, locationName, source).
        if source = js ''company'' then 1 else 0)")
     (auto simp: js_def)

subsection \<open>Second variant: the collection of contacts is switched off\<close>

text \<open>
  \<^verbatim>\<open>getCompanyInfoWithSource(searchTerm, searchType = 'company', source = 'unknown')\<close>
  of the second variant calls no directory.
\<close>

definition getCompanyInfoWithSource2 :: "jstring option \<Rightarrow> jstring \<Rightarrow> jstring \<Rightarrow> lookupResult" where
  "getCompanyInfoWithSource2 searchTerm searchType source =
     (if \<not> truthy searchTerm \<or> searchTerm = Some (js ''Unknown'')
         \<or> startsWith (the searchTerm) (js ''Excluded:'')
      then skippedResult (source @ js ''_skipped'')
      else
        let lowerCleanedName = toLowerCase (cleanSpecialCharacters searchTerm);
            normalizedName = removeSpaces lowerCleanedName
        in if searchType = js ''company''
              \<and> (lowerCleanedName \<in> set EXCLUDED_COMPANIES_2
                   \<or> some (\<lambda>excluded. str_includes normalizedName (removeSpaces excluded))
                        EXCLUDED_COMPANIES_2)
           then excludedResult (source @ js ''_excluded'')
           else if searchType = js ''company''
              \<and> some (\<lambda>partialTerm. str_includes lowerCleanedName partialTerm
                           \<or> str_includes normalizedName (removeSpaces partialTerm))
                     PARTIAL_EXCLUSIONS
           then excludedResult (source @ js ''_excluded'')
           else \<lparr>r_linkedin = js ''N/A'',
                 r_domain = (if searchType = js ''domain'' then the searchTerm else js ''N/A''),
                 r_size = js ''N/A'',
                 r_emails = [],
                 r_source = source @ js ''_contact_disabled'',
                 r_originalCompany = searchTerm\<rparr>)"

section \<open>The resolution orchestrator of the second variant\<close>

text \<open>
  The domain discovery, \<^verbatim>\<open>getWebsiteUrlFromGoogle\<close>, hands the company name to
  \<^verbatim>\<open>getWebsiteUrlFromSearchAPI\<close>, which is not among the sources and is a parameter
  here: for a company name it returns a URL or nothing, or throws. The orchestrator is
  modelled with the list of the company names the domain discovery was called with.
\<close>

datatype 'a outcome = Returned 'a | Thrown

type_synonym discovery = "jstring \<Rightarrow> jstring option outcome"

text \<open>
  One search task: the result it returns, or \<open>None\<close> when it throws (the loop over the
  tasks logs the error and goes on), and the names the domain discovery was called with.
\<close>

definition primaryTask ::
  "discovery \<Rightarrow> (jstring \<Rightarrow> jstring option) \<Rightarrow> jstring \<Rightarrow> lookupResult option \<times> jstring list" where
  "primaryTask google hostname primaryCompanyName =
     (case google primaryCompanyName of
        Thrown \<Rightarrow> (None, [primaryCompanyName])
      | Returned websiteUrl \<Rightarrow>
          (let domain = (if truthy websiteUrl then getDomainFromUrl hostname websiteUrl else None)
           in if truthy domain
              then (Some (getCompanyInfoWithSource2 domain (js ''domain'')
                            (js ''primary_google_domain'')), [primaryCompanyName])
              else (Some (getCompanyInfoWithSource2 (Some primaryCompanyName) (js ''company'')
                            (js ''primary_company_name_fallback'')), [primaryCompanyName])))"

definition parentTask ::
  "discovery \<Rightarrow> (jstring \<Rightarrow> jstring option) \<Rightarrow> jstring \<Rightarrow> lookupResult option \<times> jstring list" where
  "parentTask google hostname parsedParentCompany =
     (case google parsedParentCompany of
        Thrown \<Rightarrow> (None, [parsedParentCompany])
      | Returned parentWebsiteUrl \<Rightarrow>
          (let parentDomain = (if truthy parentWebsiteUrl
                               then getDomainFromUrl hostname parentWebsiteUrl else None)
           in if truthy parentDomain
              then (Some (getCompanyInfoWithSource2 parentDomain (js ''domain'')
                            (js ''parent_google_domain'')), [parsedParentCompany])
              else (Some (skippedResult (js ''parent_company_no_google_result'')),
                    [parsedParentCompany])))"

definition optionToList :: "'a option \<Rightarrow> 'a list" where
  "optionToList x = (case x of None \<Rightarrow> [] | Some y \<Rightarrow> [y])"

text \<open>
  \<^verbatim>\<open>getCompanyInfo(rawCompanyName, rawLocation = '', parentCompanyName = null)\<close>: the
  merged result and the names the domain discovery was called with, in order.
\<close>

definition getCompanyInfo2 ::
  "discovery \<Rightarrow> (jstring \<Rightarrow> jstring option) \<Rightarrow> jstring option \<Rightarrow> jstring \<Rightarrow> jstring option
     \<Rightarrow> mergedResult \<times> jstring list" where
  "getCompanyInfo2 google hostname rawCompanyName rawLocation parentCompanyName =
     (let primaryCompanyName = p_name (parseCompanyAndLocation2 rawCompanyName);
          parsedParentCompany = (if truthy parentCompanyName
                                 then Some (p_name (parseCompanyAndLocation2 parentCompanyName))
                                 else None);
          primary = (if primaryCompanyName \<noteq> []
                        \<and> \<not> startsWith primaryCompanyName (js ''Excluded'')
                     then primaryTask google hostname primaryCompanyName
                     else (None, []));
          parent = (if truthy parsedParentCompany
                       \<and> parsedParentCompany \<noteq> Some primaryCompanyName
                       \<and> \<not> startsWith (the parsedParentCompany) (js ''Excluded'')
                    then parentTask google hostname (the parsedParentCompany)
                    else (None, []));
          allResults = optionToList (fst primary) @ optionToList (fst parent)
      in (mergeResults2 hostname allResults, snd primary @ snd parent))"

section \<open>Notions used in the statements about the lookup\<close>

text \<open>The responses on which the lookup of the first variant throws inside its \<^verbatim>\<open>try\<close> block.\<close>

definition failedResponse :: "apiResponse \<Rightarrow> bool" where
  "failedResponse response =
     (case response of
        NoResponse \<Rightarrow> True
      | HttpError status text \<Rightarrow> True
      | MalformedBody \<Rightarrow> True
      | Body None \<Rightarrow> True
      | Body (Some companyData) \<Rightarrow> False)"

text \<open>The search term the lookup of the first variant puts into its request.\<close>

definition searchTermOf :: "jstring option \<Rightarrow> jstring" where
  "searchTermOf companyName = trim (cleanCompanyName (Some (cleanSpecialCharacters companyName)))"

text \<open>The condition under which the \<^verbatim>\<open>catch\<close> block tries the location.\<close>

definition retriesWithLocation :: "jstring option \<Rightarrow> jstring option \<Rightarrow> jstring \<Rightarrow> bool" where
  "retriesWithLocation companyName locationName source =
     (source = js ''company'' \<and> truthy locationName \<and> locationName \<noteq> companyName)"

definition emptyWorld :: world where
  "emptyWorld = \<lparr>w_calls = [], w_cache = []\<rparr>"

definition unreachable :: directory where
  "unreachable = (\<lambda>n term. NoResponse)"

definition emptyData :: hunterData where
  "emptyData = \<lparr>d_results = None, d_organization = None, d_domain = None, d_linkedin = None,
     d_headcount = None, d_emails = None\<rparr>"

definition answering :: directory where
  "answering = (\<lambda>n term. Body (Some emptyData))"

section \<open>Example records\<close>




section \<open>Invariant of the merge loops\<close>

text \<open>
  The key under which the merge step compares two contacts, and the invariant of its
  loops: the keys of the merged contacts are pairwise different and all recorded in the
  set of added keys.
\<close>

definition emailKey :: "contact \<Rightarrow> jstring" where
  "emailKey c = toLowerCase (c_email c)"

definition dedupInv :: "jstring list \<times> contact list \<Rightarrow> bool" where
  "dedupInv p = (distinct (map emailKey (snd p)) \<and> emailKey ` set (snd p) \<subseteq> set (fst p))"

section \<open>Properties of the text normalizer\<close>




section \<open>Properties of the title priority scorer\<close>

lemma arrayIndexOfAt_first:
  "j < length xs \<Longrightarrow> xs ! j = x \<Longrightarrow> x \<notin> set (take j xs) \<Longrightarrow> arrayIndexOfAt i xs x = Some (i + j)"
proof (induction xs arbitrary: i j)
  case Nil
  then show ?case by simp
next
  case (Cons y ys)
  show ?case
  proof (cases j)
    case 0
    with Cons.prems show ?thesis by simp
  next
    case (Suc j')
    with Cons.prems have "y \<noteq> x" "j' < length ys" "ys ! j' = x" "x \<notin> set (take j' ys)"
      by auto
    with Cons.IH [of j' "i + 1"] Suc show ?thesis by simp
  qed
qed

lemma arrayIndexOfAt_le:
  "j < length xs \<Longrightarrow> xs ! j = x \<Longrightarrow> \<exists>k\<le>j. arrayIndexOfAt i xs x = Some (i + k)"
proof (induction xs arbitrary: i j)
  case Nil
  then show ?case by simp
next
  case (Cons y ys)
  show ?case
  proof (cases "y = x")
    case True
    then show ?thesis by simp
  next
    case False
    with Cons.prems obtain j' where j': "j = Suc j'" "j' < length ys" "ys ! j' = x"
      by (cases j) auto
    from Cons.IH [OF j'(2,3), of "i + 1"] obtain k where "k \<le> j'" "arrayIndexOfAt (i + 1) ys x = Some (i + 1 + k)"
      by blast
    with False j' show ?thesis
      by (intro exI [of _ "Suc k"]) simp
  qed
qed


lemma TITLE_PRIORITY_nonempty: "[] \<notin> set TITLE_PRIORITY"
  by (simp add: TITLE_PRIORITY_def js_def)

lemma length_TITLE_PRIORITY: "length TITLE_PRIORITY = 76"
  by (simp add: TITLE_PRIORITY_def)

lemma arrayIndexOfAt_mem: "arrayIndexOfAt i xs x = Some k \<Longrightarrow> x \<in> set xs"
  by (induction xs arbitrary: i) (auto split: if_splits)

lemma getTitlePriority_exact:
  assumes "arrayIndexOf TITLE_PRIORITY (toLowerCase t) = Some k"
  shows "getTitlePriority (Some t) = k"
proof -
  from assms have "toLowerCase t \<in> set TITLE_PRIORITY"
    by (auto simp: arrayIndexOf_def dest: arrayIndexOfAt_mem)
  with TITLE_PRIORITY_nonempty have "t \<noteq> []"
    by (auto simp: toLowerCase_def)
  with assms show ?thesis
    by (simp add: getTitlePriority_def)
qed


text \<open>
  Claim C7, as the source has it. \<open>indexOf\<close> finds the first entry equal to the
  lower-cased title. For two titles that match the entries at the positions \<open>i < j\<close> of
  \<open>TITLE_PRIORITY\<close>, where the entry at \<open>j\<close> does not occur before \<open>j\<close>, the title matching
  the earlier entry gets the strictly lower rank.
\<close>

theorem getTitlePriority_exact_monotone:
  assumes "i < j" and "j < length TITLE_PRIORITY"
    and "TITLE_PRIORITY ! i = toLowerCase t1"
    and "TITLE_PRIORITY ! j = toLowerCase t2"
    and "toLowerCase t2 \<notin> set (take j TITLE_PRIORITY)"
  shows "getTitlePriority (Some t1) < getTitlePriority (Some t2)"
proof -
  from assms have "arrayIndexOf TITLE_PRIORITY (toLowerCase t2) = Some j"
    using arrayIndexOfAt_first [of j TITLE_PRIORITY "toLowerCase t2" 0]
    by (simp add: arrayIndexOf_def)
  then have r2: "getTitlePriority (Some t2) = j"
    by (rule getTitlePriority_exact)
  from assms have "i < length TITLE_PRIORITY" by simp
  with assms(3) obtain k where "k \<le> i" "arrayIndexOf TITLE_PRIORITY (toLowerCase t1) = Some k"
    using arrayIndexOfAt_le [of i TITLE_PRIORITY "toLowerCase t1" 0]
    by (auto simp: arrayIndexOf_def)
  then have "getTitlePriority (Some t1) \<le> i"
    using getTitlePriority_exact [of t1 k] by simp
  with r2 assms(1) show ?thesis by simp
qed


theorem getTitlePriority_exact_monotone_witness:
  "(41::nat) < 42 \<and> 42 < length TITLE_PRIORITY
   \<and> TITLE_PRIORITY ! 41 = toLowerCase (js ''COO'')
   \<and> TITLE_PRIORITY ! 42 = toLowerCase (js ''Chief Operating Officer'')
   \<and> toLowerCase (js ''Chief Operating Officer'') \<notin> set (take 42 TITLE_PRIORITY)
   \<and> getTitlePriority (Some (js ''COO'')) < getTitlePriority (Some (js ''Chief Operating Officer''))"
proof -
  have l1: "toLowerCase (js ''COO'') = js ''coo''"
    by (simp add: toLowerCase_def js_def lowerUnit_def isUpperAscii_def)
  have l2: "toLowerCase (js ''Chief Operating Officer'') = js ''chief operating officer''"
    by (simp add: toLowerCase_def js_def lowerUnit_def isUpperAscii_def)
  have h2: "42 < length TITLE_PRIORITY"
    by (simp add: length_TITLE_PRIORITY)
  have h3: "TITLE_PRIORITY ! 41 = toLowerCase (js ''COO'')"
    by (simp add: l1 TITLE_PRIORITY_def)
  have h4: "TITLE_PRIORITY ! 42 = toLowerCase (js ''Chief Operating Officer'')"
    by (simp add: l2 TITLE_PRIORITY_def)
  have h5: "toLowerCase (js ''Chief Operating Officer'') \<notin> set (take 42 TITLE_PRIORITY)"
    unfolding l2 by (simp add: TITLE_PRIORITY_def js_def)
  from getTitlePriority_exact_monotone [OF _ h2 h3 h4 h5] h2 h3 h4 h5 show ?thesis
    by simp
qed

text \<open>
  The claim as the specification words it fails, because \<open>chief people officer\<close> stands
  in the list twice, at the positions 0 and 43: the titles \<open>COO\<close> and
  \<open>Chief People Officer\<close> match the distinct entries at the positions 41 and 43, and the
  title of the earlier entry gets the higher rank, 41 against 0.
\<close>

lemma TP_41: "TITLE_PRIORITY ! 41 = js ''coo''"
  by (simp add: TITLE_PRIORITY_def)
lemma TP_43: "TITLE_PRIORITY ! 43 = js ''chief people officer''"
  by (simp add: TITLE_PRIORITY_def)
lemma TP_0: "TITLE_PRIORITY ! 0 = js ''chief people officer''"
  by (simp add: TITLE_PRIORITY_def)

theorem getTitlePriority_duplicate_counterexample: "TITLE_PRIORITY ! 41 = toLowerCase (js ''COO'') \<and>
   TITLE_PRIORITY ! 43 = toLowerCase (js ''Chief People Officer'') \<and>
   TITLE_PRIORITY ! 41 \<noteq> TITLE_PRIORITY ! 43 \<and> (41::nat) < 43 \<and>
   \<not> getTitlePriority (Some (js ''COO'')) < getTitlePriority (Some (js ''Chief People Officer''))"
proof -
  have l1: "toLowerCase (js ''COO'') = js ''coo''"
    by (simp add: toLowerCase_def js_def lowerUnit_def isUpperAscii_def)
  have l2: "toLowerCase (js ''Chief People Officer'') = js ''chief people officer''"
    by (simp add: toLowerCase_def js_def lowerUnit_def isUpperAscii_def)
  have g1: "getTitlePriority (Some (js ''COO'')) = 41"
    apply (rule getTitlePriority_exact)
    apply (simp add: l1)
    apply (simp add: arrayIndexOf_def TITLE_PRIORITY_def js_def)
    done
  have g2: "getTitlePriority (Some (js ''Chief People Officer'')) = 0"
    apply (rule getTitlePriority_exact)
    apply (simp add: l2)
    apply (simp add: arrayIndexOf_def TITLE_PRIORITY_def js_def)
    done
  show ?thesis
    by (simp add: g1 g2 l1 l2 TP_41 TP_43) (simp add: js_def)
qed

section \<open>Properties of the contact scorer\<close>












section \<open>Properties of the merge step\<close>

lemma distinct_map_insort_key:
  "distinct (map g (insort_key f x xs)) = (g x \<notin> g ` set xs \<and> distinct (map g xs))"
  by (induction xs) (auto simp: set_insort_key)

lemma distinct_map_sort_key: "distinct (map g (sort_key f xs)) = distinct (map g xs)"
  by (induction xs) (simp_all add: distinct_map_insort_key)

lemma addEmails1_inv: "dedupInv (added, acc) \<Longrightarrow> dedupInv (addEmails1 src es (added, acc))"
proof (induction es arbitrary: added acc)
  case Nil
  then show ?case by simp
next
  case (Cons e es)
  show ?case
  proof (cases "toLowerCase (c_email e) \<in> set added")
    case True
    with Cons show ?thesis by (simp add: Let_def)
  next
    case False
    with Cons.prems have "dedupInv (added @ [toLowerCase (c_email e)], acc @ [e\<lparr>c_source := Some src\<rparr>])"
      by (auto simp: dedupInv_def emailKey_def)
    from Cons.IH [OF this] False show ?thesis by (simp add: Let_def)
  qed
qed

lemma addEmails2_inv: "dedupInv (added, acc) \<Longrightarrow> dedupInv (addEmails2 src es (added, acc))"
proof (induction es arbitrary: added acc)
  case Nil
  then show ?case by simp
next
  case (Cons e es)
  show ?case
  proof (cases "c_email e \<noteq> [] \<and> toLowerCase (c_email e) \<notin> set added")
    case False
    with Cons show ?thesis by (auto simp: Let_def)
  next
    case True
    with Cons.prems have "dedupInv (added @ [toLowerCase (c_email e)],
        acc @ [e\<lparr>c_source := Some (if src = [] then js ''unknown_source'' else src)\<rparr>])"
      by (auto simp: dedupInv_def emailKey_def)
    from Cons.IH [OF this] True show ?thesis by (simp add: Let_def)
  qed
qed

lemma collect1_keeps: "ms_added (collect1 rs st) = ms_added st \<and> ms_emails (collect1 rs st) = ms_emails st"
  by (induction rs st rule: collect1.induct) simp_all

lemma addResults1_inv:
  "dedupInv (ms_added st, ms_emails st) \<Longrightarrow>
   dedupInv (ms_added (addResults1 rs st), ms_emails (addResults1 rs st))"
proof (induction rs st rule: addResults1.induct)
  case (1 st)
  then show ?case by simp
next
  case (2 src d rest st)
  obtain added emails where ae: "addEmails1 src (r_emails d) (ms_added st, ms_emails st) = (added, emails)"
    by (cases "addEmails1 src (r_emails d) (ms_added st, ms_emails st)")
  with addEmails1_inv [OF "2.prems", of src "r_emails d"] have "dedupInv (added, emails)"
    by simp
  with "2.IH" [OF refl ae [symmetric]] ae show ?case
    by (simp add: Let_def)
qed

lemma addResults2_inv:
  "dedupInv (ms_added st, ms_emails st) \<Longrightarrow>
   dedupInv (ms_added (addResults2 rs st), ms_emails (addResults2 rs st))"
proof (induction rs arbitrary: st)
  case Nil
  then show ?case by simp
next
  case (Cons r rest)
  define p where "p = (if r_emails r \<noteq> []
      then addEmails2 (r_source r) (r_emails r) (ms_added st, ms_emails st)
      else (ms_added st, ms_emails st))"
  have "dedupInv p"
    unfolding p_def using addEmails2_inv [OF Cons.prems] Cons.prems by simp
  then show ?case
    using Cons.IH
    by (cases p) (simp add: Let_def p_def [symmetric])
qed

lemma flagContact_email: "c_email (flagContact h fd c) = c_email c"
  by (simp add: flagContact_def split: option.splits)


text \<open>
  Claim C2. In both variants of the merge step, whatever the lookup results are, no two
  contacts of the merged list have addresses that are equal after lower-casing.
\<close>

theorem merged_emails_distinct:
  "distinct (map (\<lambda>c. toLowerCase (c_email c)) (m_emails (mergeResults1 allResults))) \<and>
   distinct (map (\<lambda>c. toLowerCase (c_email c)) (m_emails (mergeResults2 hostname results)))"
proof
  have init: "dedupInv (ms_added mergeInit, ms_emails mergeInit)"
    by (simp add: dedupInv_def mergeInit_def)
  let ?st = "collect1 allResults mergeInit"
  have "dedupInv (ms_added ?st, ms_emails ?st)"
    using init by (simp add: collect1_keeps)
  then have "distinct (map emailKey (ms_emails (addResults1 rs ?st)))" for rs
    using addResults1_inv [of ?st rs] by (simp add: dedupInv_def)
  then show "distinct (map (\<lambda>c. toLowerCase (c_email c)) (m_emails (mergeResults1 allResults)))"
    by (simp add: mergeResults1_def Let_def distinct_map_sort_key emailKey_def [abs_def])
  have "distinct (map emailKey (ms_emails (addResults2 rs mergeInit)))" for rs
    using addResults2_inv [OF init, of rs] by (simp add: dedupInv_def)
  then have "distinct (map (\<lambda>c. toLowerCase (c_email c)) (ms_emails (addResults2 rs mergeInit)))" for rs
    by (simp add: emailKey_def [abs_def])
  then show "distinct (map (\<lambda>c. toLowerCase (c_email c)) (m_emails (mergeResults2 hostname results)))"
    by (simp add: mergeResults2_def Let_def distinct_map_sort_key o_def flagContact_email)
qed

end
